theory Spec2Isabelle
  imports Main
begin

section \<open>Unstructured objects\<close>

text \<open>
  The operator and the backend handle Sessions and NamespacePolicies as
  \<^verbatim>\<open>unstructured.Unstructured\<close>: a \<^verbatim>\<open>map[string]interface{}\<close> decoded from JSON.
  A decoded value is nil, a bool, a number, a string, a slice or a map. Numbers are kept
  as integers (the \<^verbatim>\<open>int64\<close> case of the decoder); no function below computes on a float.
  A Go map is an association list read with \<open>map_of\<close>.
\<close>

datatype json =
    JNull
  | JBool bool
  | JInt int
  | JString string
  | JList "json list"
  | JMap "(string \<times> json) list"

type_synonym obj = "(string \<times> json) list"

text \<open>Type assertions with the comma-ok form: \<open>None\<close> is \<^verbatim>\<open>ok == false\<close>.\<close>

fun as_map :: "json \<Rightarrow> obj option" where
  "as_map (JMap m) = Some m"
| "as_map _ = None"

fun as_list :: "json \<Rightarrow> json list option" where
  "as_list (JList xs) = Some xs"
| "as_list _ = None"

fun as_string :: "json \<Rightarrow> string option" where
  "as_string (JString s) = Some s"
| "as_string _ = None"

fun as_int :: "json \<Rightarrow> int option" where
  "as_int (JInt i) = Some i"
| "as_int _ = None"

text \<open>\<^verbatim>\<open>m[k]\<close>: a missing key reads as nil.\<close>

definition idx :: "obj \<Rightarrow> string \<Rightarrow> json" where
  "idx m k = (case map_of m k of Some v \<Rightarrow> v | None \<Rightarrow> JNull)"

text \<open>
  \<^verbatim>\<open>m[k]\<close> where \<^verbatim>\<open>m\<close> came from \<^verbatim>\<open>m, _ := v.(map[string]interface{})\<close>: a failed
  assertion leaves the nil map, and reading a nil map gives nil.
\<close>

definition idx_nil :: "obj option \<Rightarrow> string \<Rightarrow> json" where
  "idx_nil m k = (case m of Some m' \<Rightarrow> idx m' k | None \<Rightarrow> JNull)"

text \<open>\<^verbatim>\<open>m[k] = v\<close> on a map.\<close>

fun put :: "string \<Rightarrow> json \<Rightarrow> obj \<Rightarrow> obj" where
  "put k v [] = [(k, v)]"
| "put k v ((k', v') # m) = (if k = k' then (k, v) # m else (k', v') # put k v m)"

text \<open>
  \<^verbatim>\<open>GetNamespace\<close> and \<^verbatim>\<open>GetName\<close> of an Unstructured read \<^verbatim>\<open>metadata.namespace\<close> and
  \<^verbatim>\<open>metadata.name\<close> and answer the empty string when the field is missing or not a string.
\<close>

definition GetNamespace :: "obj \<Rightarrow> string" where
  "GetNamespace u =
     (case as_map (idx u ''metadata'') of
        None \<Rightarrow> []
      | Some md \<Rightarrow> (case as_string (idx md ''namespace'') of None \<Rightarrow> [] | Some s \<Rightarrow> s))"

definition GetName :: "obj \<Rightarrow> string" where
  "GetName u =
     (case as_map (idx u ''metadata'') of
        None \<Rightarrow> []
      | Some md \<Rightarrow> (case as_string (idx md ''name'') of None \<Rightarrow> [] | Some s \<Rightarrow> s))"

text \<open>The value found by following a path of keys through nested maps, nil when the path breaks.\<close>

fun at_path :: "json \<Rightarrow> string list \<Rightarrow> json" where
  "at_path v [] = v"
| "at_path v (k # ks) = (case as_map v of Some m \<Rightarrow> at_path (idx m k) ks | None \<Rightarrow> JNull)"

definition list_at :: "obj \<Rightarrow> string list \<Rightarrow> json list" where
  "list_at u p = (case as_list (at_path (JMap u) p) of Some xs \<Rightarrow> xs | None \<Rightarrow> [])"

text \<open>The answer of the store to a read of one named resource.\<close>

datatype lookup = Found obj | NotFound | LookupFailed

section \<open>Session admission (pkg/webhooks/session\_validator.go)\<close>

datatype verr =
    SpecRequired
  | FrameworkRequired
  | FrameworkTypeRequired
  | UnsupportedFramework string
  | NamespaceRequired
  | PolicyLookupFailed
  | FrameworkBlocked string
  | FrameworkNotAllowed string
  | ModelNotAllowed string
  | ModelBlocked string
  | ToolNotAllowed string
  | ToolBlocked string
  | HistoryRemoved
  | HistoryShortened nat nat
  | HistoryEntryRemoved nat
  | HistoryEntryModified nat
  | ModelNotAllowedByPolicy json
  | ToolNotAllowedByPolicy json
  | OwnerReferenceFailed
  | JobCreateFailed
  | NoJobName
  | JobGetFailed

text \<open>
  What a validation function returns: nil, an error, or no return at all because a
  single-value type assertion \<^verbatim>\<open>x.(string)\<close> met a value that is not a string.
\<close>

datatype outcome = NoError | Error verr | Panic

datatype denial =
    InvalidFrameworkType verr
  | PolicyViolation verr
  | HistoryModification verr

datatype response = Allowed | Denied denial | Errored nat | Panicked

record request =
  operation :: string
  object :: "obj option"
  oldObject :: "obj option"

definition availableFrameworks :: "string list" where
  "availableFrameworks = [''claude-code'', ''custom-python'', ''bash-runner'']"

definition validateFrameworkType :: "obj \<Rightarrow> outcome" where
  "validateFrameworkType session =
     (case as_map (idx session ''spec'') of
        None \<Rightarrow> Error SpecRequired
      | Some spec \<Rightarrow>
          (case as_map (idx spec ''framework'') of
             None \<Rightarrow> Error FrameworkRequired
           | Some framework \<Rightarrow>
               (case as_string (idx framework ''type'') of
                  None \<Rightarrow> Error FrameworkTypeRequired
                | Some frameworkType \<Rightarrow>
                    if frameworkType \<in> set availableFrameworks then NoError
                    else Error (UnsupportedFramework frameworkType))))"

text \<open>
  The loop \<^verbatim>\<open>for _, a := range list { if a.(string) == s { ... break } }\<close>:
  whether \<open>s\<close> is met, \<open>None\<close> when an element before it is not a string.
\<close>

fun str_mem :: "string \<Rightarrow> json list \<Rightarrow> bool option" where
  "str_mem s [] = Some False"
| "str_mem s (a # as) =
     (case as_string a of
        None \<Rightarrow> None
      | Some y \<Rightarrow> if y = s then Some True else str_mem s as)"

text \<open>
  The same loop with \<^verbatim>\<open>r.(string) == a.(string)\<close> as its test: \<open>r\<close> is asserted
  in the first iteration, so only when the list has an element.
\<close>

definition str_found :: "json \<Rightarrow> json list \<Rightarrow> bool option" where
  "str_found r list =
     (if list = [] then Some False
      else (case as_string r of None \<Rightarrow> None | Some x \<Rightarrow> str_mem x list))"

fun check_allowed :: "(string \<Rightarrow> verr) \<Rightarrow> json list \<Rightarrow> json list \<Rightarrow> outcome" where
  "check_allowed mk [] allowed = NoError"
| "check_allowed mk (r # rs) allowed =
     (case str_found r allowed of
        None \<Rightarrow> Panic
      | Some True \<Rightarrow> check_allowed mk rs allowed
      | Some False \<Rightarrow> (case as_string r of None \<Rightarrow> Panic | Some s \<Rightarrow> Error (mk s)))"

fun check_blocked :: "(string \<Rightarrow> verr) \<Rightarrow> json list \<Rightarrow> json list \<Rightarrow> outcome" where
  "check_blocked mk [] blocked = NoError"
| "check_blocked mk (r # rs) blocked =
     (case str_found r blocked of
        None \<Rightarrow> Panic
      | Some True \<Rightarrow> (case as_string r of None \<Rightarrow> Panic | Some s \<Rightarrow> Error (mk s))
      | Some False \<Rightarrow> check_blocked mk rs blocked)"

definition validateFrameworkConstraints :: "obj option \<Rightarrow> obj option \<Rightarrow> outcome" where
  "validateFrameworkConstraints sessionSpec policySpec =
     (case as_map (idx_nil sessionSpec ''framework'') of
        None \<Rightarrow> NoError
      | Some framework \<Rightarrow>
          (let frameworkType = (case as_string (idx framework ''type'') of None \<Rightarrow> [] | Some s \<Rightarrow> s)
           in case as_map (idx_nil policySpec ''frameworks'') of
                None \<Rightarrow> NoError
              | Some frameworks \<Rightarrow>
                  (case (case as_list (idx frameworks ''blocked'') of
                           None \<Rightarrow> Some False
                         | Some blocked \<Rightarrow> str_mem frameworkType blocked) of
                     None \<Rightarrow> Panic
                   | Some True \<Rightarrow> Error (FrameworkBlocked frameworkType)
                   | Some False \<Rightarrow>
                       (case as_list (idx frameworks ''allowed'') of
                          None \<Rightarrow> NoError
                        | Some allowed \<Rightarrow>
                            (case str_mem frameworkType allowed of
                               None \<Rightarrow> Panic
                             | Some True \<Rightarrow> NoError
                             | Some False \<Rightarrow> Error (FrameworkNotAllowed frameworkType))))))"

text \<open>
  The shared shape of \<^verbatim>\<open>validateModelConstraints\<close> and \<^verbatim>\<open>validateToolConstraints\<close>:
  the requested list against the policy's allowed list when that key holds a list, then
  against its blocked list when that key holds a list.
\<close>

definition check_lists ::
  "(string \<Rightarrow> verr) \<Rightarrow> (string \<Rightarrow> verr) \<Rightarrow> json list \<Rightarrow> obj \<Rightarrow> outcome" where
  "check_lists notAllowed isBlocked requested policyPart =
     (case (case as_list (idx policyPart ''allowed'') of
              None \<Rightarrow> NoError
            | Some allowed \<Rightarrow> check_allowed notAllowed requested allowed) of
        NoError \<Rightarrow>
          (case as_list (idx policyPart ''blocked'') of
             None \<Rightarrow> NoError
           | Some blocked \<Rightarrow> check_blocked isBlocked requested blocked)
      | e \<Rightarrow> e)"

definition validateModelConstraints :: "obj option \<Rightarrow> obj option \<Rightarrow> outcome" where
  "validateModelConstraints sessionSpec policySpec =
     (case as_map (idx_nil sessionSpec ''policy'') of
        None \<Rightarrow> NoError
      | Some sessionPolicy \<Rightarrow>
          (case as_map (idx sessionPolicy ''modelConstraints'') of
             None \<Rightarrow> NoError
           | Some modelConstraints \<Rightarrow>
               (case as_list (idx modelConstraints ''allowed'') of
                  None \<Rightarrow> NoError
                | Some requestedModels \<Rightarrow>
                    (case as_map (idx_nil policySpec ''models'') of
                       None \<Rightarrow> NoError
                     | Some policyModels \<Rightarrow>
                         check_lists ModelNotAllowed ModelBlocked requestedModels policyModels))))"

definition validateToolConstraints :: "obj option \<Rightarrow> obj option \<Rightarrow> outcome" where
  "validateToolConstraints sessionSpec policySpec =
     (case as_map (idx_nil sessionSpec ''policy'') of
        None \<Rightarrow> NoError
      | Some sessionPolicy \<Rightarrow>
          (case as_map (idx sessionPolicy ''toolConstraints'') of
             None \<Rightarrow> NoError
           | Some toolConstraints \<Rightarrow>
               (case as_list (idx toolConstraints ''allowed'') of
                  None \<Rightarrow> NoError
                | Some requestedTools \<Rightarrow>
                    (case as_map (idx_nil policySpec ''tools'') of
                       None \<Rightarrow> NoError
                     | Some policyTools \<Rightarrow>
                         check_lists ToolNotAllowed ToolBlocked requestedTools policyTools))))"

definition validateSessionAgainstPolicy :: "obj \<Rightarrow> obj \<Rightarrow> outcome" where
  "validateSessionAgainstPolicy session policy =
     (let sessionSpec = as_map (idx session ''spec'');
          policySpec = as_map (idx policy ''spec'')
      in case validateFrameworkConstraints sessionSpec policySpec of
           NoError \<Rightarrow>
             (case validateModelConstraints sessionSpec policySpec of
                NoError \<Rightarrow> validateToolConstraints sessionSpec policySpec
              | e \<Rightarrow> e)
         | e \<Rightarrow> e)"

text \<open>
  \<open>get_policy\<close> is the read of the NamespacePolicy named \<^verbatim>\<open>policy\<close> in a namespace
  through the dynamic client.
\<close>

definition validateAgainstNamespacePolicy :: "(string \<Rightarrow> lookup) \<Rightarrow> obj \<Rightarrow> outcome" where
  "validateAgainstNamespacePolicy get_policy session =
     (let namespace = GetNamespace session
      in if namespace = [] then Error NamespaceRequired
         else (case get_policy namespace of
                 NotFound \<Rightarrow> NoError
               | LookupFailed \<Rightarrow> Error PolicyLookupFailed
               | Found policy \<Rightarrow> validateSessionAgainstPolicy session policy))"

definition validateCreate :: "(string \<Rightarrow> lookup) \<Rightarrow> obj \<Rightarrow> response" where
  "validateCreate get_policy session =
     (case validateFrameworkType session of
        Error e \<Rightarrow> Denied (InvalidFrameworkType e)
      | Panic \<Rightarrow> Panicked
      | NoError \<Rightarrow>
          (case validateAgainstNamespacePolicy get_policy session of
             Error e \<Rightarrow> Denied (PolicyViolation e)
           | Panic \<Rightarrow> Panicked
           | NoError \<Rightarrow> Allowed))"

text \<open>
  The loop over the old history. \<open>marshal\<close> is \<^verbatim>\<open>json.Marshal\<close> of the Go standard
  library, whose error the code drops; the validator is modelled for any encoder.
\<close>

fun compare_entries :: "(json \<Rightarrow> string) \<Rightarrow> nat \<Rightarrow> json list \<Rightarrow> json list \<Rightarrow> outcome" where
  "compare_entries marshal i [] newHistory = NoError"
| "compare_entries marshal i (oldEntry # rest) newHistory =
     (if i \<ge> length newHistory then Error (HistoryEntryRemoved i)
      else if marshal oldEntry \<noteq> marshal (newHistory ! i) then Error (HistoryEntryModified i)
      else compare_entries marshal (Suc i) rest newHistory)"

definition validateHistoryAppendOnly :: "(json \<Rightarrow> string) \<Rightarrow> obj \<Rightarrow> obj \<Rightarrow> outcome" where
  "validateHistoryAppendOnly marshal oldSession newSession =
     (let oldStatus = as_map (idx oldSession ''status'');
          newStatus = as_map (idx newSession ''status'')
      in case oldStatus of
           None \<Rightarrow> NoError
         | Some os \<Rightarrow>
             (case as_list (idx os ''history'') of
                None \<Rightarrow> NoError
              | Some oldHistory \<Rightarrow>
                  (case as_list (idx_nil newStatus ''history'') of
                     None \<Rightarrow> Error HistoryRemoved
                   | Some newHistory \<Rightarrow>
                       if length newHistory < length oldHistory
                       then Error (HistoryShortened (length oldHistory) (length newHistory))
                       else compare_entries marshal 0 oldHistory newHistory)))"

text \<open>\<open>oldObject req = None\<close> is a \<^verbatim>\<open>DecodeRaw\<close> that fails.\<close>

definition validateUpdate :: "(json \<Rightarrow> string) \<Rightarrow> obj \<Rightarrow> request \<Rightarrow> response" where
  "validateUpdate marshal newSession req =
     (case oldObject req of
        None \<Rightarrow> Errored 400
      | Some oldSession \<Rightarrow>
          (case validateHistoryAppendOnly marshal oldSession newSession of
             Error e \<Rightarrow> Denied (HistoryModification e)
           | Panic \<Rightarrow> Panicked
           | NoError \<Rightarrow> Allowed))"

text \<open>\<open>object req = None\<close> is a \<^verbatim>\<open>Decode\<close> that fails.\<close>

definition Handle :: "(json \<Rightarrow> string) \<Rightarrow> (string \<Rightarrow> lookup) \<Rightarrow> request \<Rightarrow> response" where
  "Handle marshal get_policy req =
     (case object req of
        None \<Rightarrow> Errored 400
      | Some session \<Rightarrow>
          if operation req = ''CREATE'' then validateCreate get_policy session
          else if operation req = ''UPDATE'' then validateUpdate marshal session req
          else Allowed)"

section \<open>Session phases (status package)\<close>

definition SessionPhasePending :: string where "SessionPhasePending = ''Pending''"
definition SessionPhaseRunning :: string where "SessionPhaseRunning = ''Running''"
definition SessionPhaseCompleted :: string where "SessionPhaseCompleted = ''Completed''"
definition SessionPhaseFailed :: string where "SessionPhaseFailed = ''Failed''"

text \<open>\<^verbatim>\<open>SessionStatusUpdater.IsPhaseTransitionValid\<close>: the table of valid transitions.\<close>

definition validTransitions :: "(string \<times> string list) list" where
  "validTransitions =
     [(SessionPhasePending, [SessionPhaseRunning, SessionPhaseFailed]),
      (SessionPhaseRunning, [SessionPhaseCompleted, SessionPhaseFailed]),
      (SessionPhaseCompleted, []),
      (SessionPhaseFailed, [])]"

definition IsPhaseTransitionValid :: "string \<Rightarrow> string \<Rightarrow> bool" where
  "IsPhaseTransitionValid from to =
     (case map_of validTransitions from of
        None \<Rightarrow> False
      | Some allowedTransitions \<Rightarrow> to \<in> set allowedTransitions)"

text \<open>The event name \<^verbatim>\<open>SessionStatusUpdater.UpdatePhase\<close> writes: \<^verbatim>\<open>"PhaseChanged:%s"\<close>.\<close>

definition UpdatePhase_event :: "string \<Rightarrow> string" where
  "UpdatePhase_event phase = ''PhaseChanged:'' @ phase"

section \<open>Session reconciler (SessionReconciler)\<close>

definition PhasePending :: string where "PhasePending = ''Pending''"
definition PhaseRunning :: string where "PhaseRunning = ''Running''"
definition PhaseCompleted :: string where "PhaseCompleted = ''Completed''"
definition PhaseFailed :: string where "PhaseFailed = ''Failed''"

text \<open>
  What one reconcile returns: \<^verbatim>\<open>ctrl.Result{}, nil\<close>, a requeue after some seconds, an
  error, or a panic of a type assertion.
\<close>

datatype result = Done | RequeueAfter nat | ReconcileError | ReconcilePanic

datatype create_result = Created | AlreadyExists | CreateFailed

text \<open>
  What the reconciler gets from outside during one reconcile: the formatted clock, the
  read of the namespace's policy, whether the owner reference can be set, the answer to
  the creation of the job, the read of a job by namespace and name, whether the status
  update of \<^verbatim>\<open>updatePhase\<close> is accepted, and the text \<^verbatim>\<open>%v\<close> gives an error.
\<close>

record env =
  env_now :: string
  env_policy :: "string \<Rightarrow> lookup"
  env_owner_ok :: bool
  env_create :: create_result
  env_job :: "string \<Rightarrow> string \<Rightarrow> lookup"
  env_update_ok :: bool
  env_text :: "verr \<Rightarrow> string"

definition getPhase :: "obj \<Rightarrow> string" where
  "getPhase session =
     (case as_map (idx session ''status'') of
        None \<Rightarrow> PhasePending
      | Some status \<Rightarrow>
          (case as_string (idx status ''phase'') of
             None \<Rightarrow> PhasePending
           | Some phase \<Rightarrow> if phase = [] then PhasePending else phase))"

text \<open>
  \<^verbatim>\<open>updatePhase\<close> writes into the status map of the session it was given and sends it as a
  status update; the model returns the session as written and the result of the call.
\<close>

definition updatePhase :: "env \<Rightarrow> obj \<Rightarrow> string \<Rightarrow> string \<Rightarrow> obj \<times> result" where
  "updatePhase e session phase message =
     (let status0 = (case as_map (idx session ''status'') of None \<Rightarrow> [] | Some st \<Rightarrow> st);
          status1 = put ''phase'' (JString phase) status0;
          history = (case as_list (idx status1 ''history'') of None \<Rightarrow> [] | Some h \<Rightarrow> h);
          historyEntry = JMap
            [(''timestamp'', JString (env_now e)),
             (''event'', JString (''PhaseChanged'' @ phase)),
             (''data'', JMap [(''phase'', JString phase), (''message'', JString message)])];
          status2 = put ''history'' (JList (history @ [historyEntry])) status1;
          conditions = (case as_list (idx status2 ''conditions'') of None \<Rightarrow> [] | Some c \<Rightarrow> c);
          phaseCondition = JMap
            [(''type'', JString (''Phase'' @ phase)),
             (''status'', JString ''True''),
             (''lastTransitionTime'', JString (env_now e)),
             (''reason'', JString phase),
             (''message'', JString message)];
          status3 = put ''conditions'' (JList (conditions @ [phaseCondition])) status2;
          session' = put ''status'' (JMap status3) session
      in (session', if env_update_ok e then Done else ReconcileError))"

text \<open>\<^verbatim>\<open>updateWorkloadInfo\<close>; its caller drops the error of the status update.\<close>

definition updateWorkloadInfo :: "env \<Rightarrow> obj \<Rightarrow> string \<Rightarrow> obj" where
  "updateWorkloadInfo e session jobName =
     (let status0 = (case as_map (idx session ''status'') of None \<Rightarrow> [] | Some st \<Rightarrow> st);
          status1 = put ''workload'' (JMap
            [(''jobName'', JString jobName),
             (''podName'', JString (jobName @ ''-pod'')),
             (''createdAt'', JString (env_now e))]) status0
      in put ''status'' (JMap status1) session)"

text \<open>
  The name and the labels of the job \<^verbatim>\<open>buildJob\<close> makes. The pod template is left out:
  the job goes to the orchestrator, and the reconciler reads back its name only.
\<close>

definition buildJob :: "obj \<Rightarrow> string \<Rightarrow> obj" where
  "buildJob session frameworkType =
     [(''apiVersion'', JString ''batch/v1''),
      (''kind'', JString ''Job''),
      (''metadata'', JMap
         [(''name'', JString (GetName session @ ''-runner'')),
          (''namespace'', JString (GetNamespace session)),
          (''labels'', JMap
             [(''ambient.ai/session-id'', JString (GetName session)),
              (''ambient.ai/framework-type'', JString frameworkType),
              (''app.kubernetes.io/component'', JString ''runner'')])])]"

definition createWorkload :: "env \<Rightarrow> obj \<Rightarrow> obj \<times> outcome" where
  "createWorkload e session =
     (let spec = as_map (idx session ''spec'');
          framework = as_map (idx_nil spec ''framework'');
          frameworkType = (case as_string (idx_nil framework ''type'') of None \<Rightarrow> [] | Some s \<Rightarrow> s);
          job = buildJob session frameworkType
      in if \<not> env_owner_ok e then (session, Error OwnerReferenceFailed)
         else if env_create e = CreateFailed then (session, Error JobCreateFailed)
         else (updateWorkloadInfo e session (GetName job), NoError))"

text \<open>\<^verbatim>\<open>validateBudget\<close> reads the policy's budget, logs it and returns nil.\<close>

definition validateBudget :: "obj option \<Rightarrow> obj option \<Rightarrow> outcome" where
  "validateBudget sessionSpec policySpec =
     (case as_map (idx_nil policySpec ''models'') of
        None \<Rightarrow> NoError
      | Some models \<Rightarrow>
          (case as_map (idx models ''budget'') of
             None \<Rightarrow> NoError
           | Some budget \<Rightarrow> NoError))"

text \<open>
  The loop of \<^verbatim>\<open>validateModels\<close> and \<^verbatim>\<open>validateTools\<close>; the error formats the requested
  value with \<^verbatim>\<open>%s\<close> and asserts nothing.
\<close>

fun check_requested :: "(json \<Rightarrow> verr) \<Rightarrow> json list \<Rightarrow> json list \<Rightarrow> outcome" where
  "check_requested mk [] allowed = NoError"
| "check_requested mk (r # rs) allowed =
     (case str_found r allowed of
        None \<Rightarrow> Panic
      | Some True \<Rightarrow> check_requested mk rs allowed
      | Some False \<Rightarrow> Error (mk r))"

definition validateModels :: "obj option \<Rightarrow> obj option \<Rightarrow> outcome" where
  "validateModels sessionSpec policySpec =
     (case as_map (idx_nil sessionSpec ''policy'') of
        None \<Rightarrow> NoError
      | Some sessionPolicy \<Rightarrow>
          (case as_map (idx sessionPolicy ''modelConstraints'') of
             None \<Rightarrow> NoError
           | Some modelConstraints \<Rightarrow>
               (case as_list (idx modelConstraints ''allowed'') of
                  None \<Rightarrow> NoError
                | Some requestedModels \<Rightarrow>
                    (case as_map (idx_nil policySpec ''models'') of
                       None \<Rightarrow> NoError
                     | Some models \<Rightarrow>
                         (case as_list (idx models ''allowed'') of
                            None \<Rightarrow> NoError
                          | Some allowed \<Rightarrow>
                              check_requested ModelNotAllowedByPolicy requestedModels allowed)))))"

definition validateTools :: "obj option \<Rightarrow> obj option \<Rightarrow> outcome" where
  "validateTools sessionSpec policySpec =
     (case as_map (idx_nil sessionSpec ''policy'') of
        None \<Rightarrow> NoError
      | Some sessionPolicy \<Rightarrow>
          (case as_map (idx sessionPolicy ''toolConstraints'') of
             None \<Rightarrow> NoError
           | Some toolConstraints \<Rightarrow>
               (case as_list (idx toolConstraints ''allowed'') of
                  None \<Rightarrow> NoError
                | Some requestedTools \<Rightarrow>
                    (case as_map (idx_nil policySpec ''tools'') of
                       None \<Rightarrow> NoError
                     | Some tools \<Rightarrow>
                         (case as_list (idx tools ''allowed'') of
                            None \<Rightarrow> NoError
                          | Some allowed \<Rightarrow>
                              check_requested ToolNotAllowedByPolicy requestedTools allowed)))))"

definition validatePolicy :: "env \<Rightarrow> obj \<Rightarrow> outcome" where
  "validatePolicy e session =
     (case env_policy e (GetNamespace session) of
        NotFound \<Rightarrow> NoError
      | LookupFailed \<Rightarrow> Error PolicyLookupFailed
      | Found policy \<Rightarrow>
          (let sessionSpec = as_map (idx session ''spec'');
               policySpec = as_map (idx policy ''spec'')
           in case validateBudget sessionSpec policySpec of
                NoError \<Rightarrow>
                  (case validateModels sessionSpec policySpec of
                     NoError \<Rightarrow> validateTools sessionSpec policySpec
                   | err \<Rightarrow> err)
              | err \<Rightarrow> err))"

definition handlePending :: "env \<Rightarrow> obj \<Rightarrow> obj \<times> result" where
  "handlePending e session =
     (case validatePolicy e session of
        Panic \<Rightarrow> (session, ReconcilePanic)
      | Error err \<Rightarrow>
          updatePhase e session PhaseFailed (''Policy validation failed: '' @ env_text e err)
      | NoError \<Rightarrow>
          (case createWorkload e session of
             (session', Panic) \<Rightarrow> (session', ReconcilePanic)
           | (session', Error err) \<Rightarrow>
               updatePhase e session' PhaseFailed (''Workload creation failed: '' @ env_text e err)
           | (session', NoError) \<Rightarrow>
               updatePhase e session' PhaseRunning ''Workload created successfully''))"

text \<open>\<^verbatim>\<open>checkWorkloadStatus\<close>: \<open>None\<close> is its error.\<close>

definition positive :: "json \<Rightarrow> bool" where
  "positive v = (case as_int v of None \<Rightarrow> False | Some n \<Rightarrow> n > 0)"

definition checkWorkloadStatus :: "env \<Rightarrow> obj \<Rightarrow> string option" where
  "checkWorkloadStatus e session =
     (let status = as_map (idx session ''status'');
          workload = as_map (idx_nil status ''workload'');
          jobName = (case as_string (idx_nil workload ''jobName'') of None \<Rightarrow> [] | Some s \<Rightarrow> s)
      in if jobName = [] then None
         else (case env_job e (GetNamespace session) jobName of
                 NotFound \<Rightarrow> None
               | LookupFailed \<Rightarrow> None
               | Found job \<Rightarrow>
                   (case as_map (idx job ''status'') of
                      None \<Rightarrow> Some ''Running''
                    | Some jobStatus \<Rightarrow>
                        if positive (idx jobStatus ''succeeded'') then Some ''Completed''
                        else if positive (idx jobStatus ''failed'') then Some ''Failed''
                        else if positive (idx jobStatus ''active'') then Some ''Running''
                        else Some ''Unknown'')))"

definition handleRunning :: "env \<Rightarrow> obj \<Rightarrow> obj \<times> result" where
  "handleRunning e session =
     (case checkWorkloadStatus e session of
        None \<Rightarrow> (session, RequeueAfter 10)
      | Some workloadStatus \<Rightarrow>
          if workloadStatus = ''Completed''
          then updatePhase e session PhaseCompleted ''Session completed successfully''
          else if workloadStatus = ''Failed''
          then updatePhase e session PhaseFailed ''Workload execution failed''
          else if workloadStatus = ''Running'' then (session, RequeueAfter 30)
          else (session, RequeueAfter 10))"

text \<open>
  \<^verbatim>\<open>Reconcile\<close>, from the session that the read of the request's name gave: the session
  after the reconcile, if there is one, and the result.
\<close>

definition Reconcile :: "env \<Rightarrow> lookup \<Rightarrow> obj option \<times> result" where
  "Reconcile e fetched =
     (case fetched of
        NotFound \<Rightarrow> (None, Done)
      | LookupFailed \<Rightarrow> (None, ReconcileError)
      | Found session \<Rightarrow>
          (let phase = getPhase session;
               (session', r) =
                 (if phase = PhasePending then handlePending e session
                  else if phase = PhaseRunning then handleRunning e session
                  else if phase = PhaseCompleted \<or> phase = PhaseFailed then (session, Done)
                  else updatePhase e session PhasePending
                         ''Unknown phase detected, resetting to Pending'')
           in (Some session', r)))"

section \<open>Policy reconciler (PolicyReconciler)\<close>

text \<open>
  \<^verbatim>\<open>markSessionViolation\<close>, the one place where the policy reconciler writes a session:
  the session as it leaves the function, and whether a status update was sent.
\<close>

definition markSessionViolation :: "string \<Rightarrow> obj \<Rightarrow> string \<Rightarrow> obj \<times> bool" where
  "markSessionViolation now session violation =
     (let status0 = (case as_map (idx session ''status'') of None \<Rightarrow> [] | Some st \<Rightarrow> st);
          phase = (case as_string (idx status0 ''phase'') of None \<Rightarrow> [] | Some p \<Rightarrow> p)
      in if phase \<noteq> ''Completed'' \<and> phase \<noteq> ''Failed''
         then
           (let status1 = put ''phase'' (JString ''Failed'') status0;
                status2 = put ''violationReason'' (JString violation) status1;
                history = (case as_list (idx status2 ''history'') of None \<Rightarrow> [] | Some h \<Rightarrow> h);
                historyEntry = JMap
                  [(''timestamp'', JString now),
                   (''event'', JString ''PolicyViolation''),
                   (''data'', JMap [(''reason'', JString violation)])];
                status3 = put ''history'' (JList (history @ [historyEntry])) status2
            in (put ''status'' (JMap status3) session, True))
         else (session, False))"

section \<open>The declarative store\<close>

text \<open>
  The store the dynamic client talks to keeps one object per namespace and name. A create
  is refused when the store does not admit the object or when the name is taken in that
  namespace; otherwise the object is stored and returned. \<open>admit\<close> stands for every other
  reason the store has to refuse.
\<close>

type_synonym store = "string \<times> string \<Rightarrow> obj option"

definition store_create :: "(obj \<Rightarrow> bool) \<Rightarrow> string \<Rightarrow> obj \<Rightarrow> store \<Rightarrow> (obj \<times> store) option" where
  "store_create admit namespace u st =
     (if \<not> admit u then None
      else if st (namespace, GetName u) \<noteq> None then None
      else Some (u, st((namespace, GetName u) := Some u)))"

section \<open>Rendering\<close>

text \<open>Decimal rendering of an integer, as \<^verbatim>\<open>%d\<close> prints it.\<close>

fun dec :: "nat \<Rightarrow> string" where
  "dec n = (if n < 10 then [''0123456789'' ! n] else dec (n div 10) @ [''0123456789'' ! (n mod 10)])"

declare dec.simps [simp del]

definition itoa :: "int \<Rightarrow> string" where
  "itoa i = (if i < 0 then CHR ''-'' # dec (nat (- i)) else dec (nat i))"

section \<open>Session manager (pkg/services/session\_manager.go)\<close>

text \<open>A slice or a map that may be nil is an \<open>option\<close>.\<close>

record TriggerInfo =
  trigger_source :: string
  trigger_event :: string
  trigger_payload :: "obj option"

record FrameworkInfo =
  framework_type :: string
  framework_version :: string
  framework_config :: "obj option"

record PolicyInfo =
  model_allowed :: "string list option"
  model_budget :: string
  tool_allowed :: "string list option"
  tool_blocked :: "string list option"
  approval_required :: bool

record SessionSpec =
  spec_trigger :: TriggerInfo
  spec_framework :: FrameworkInfo
  spec_policy :: PolicyInfo

text \<open>The structs as the store receives them, by their \<^verbatim>\<open>json\<close> tags.\<close>

definition strings_json :: "string list option \<Rightarrow> json" where
  "strings_json xs = (case xs of None \<Rightarrow> JNull | Some l \<Rightarrow> JList (map JString l))"

definition trigger_json :: "TriggerInfo \<Rightarrow> json" where
  "trigger_json t =
     JMap [(''source'', JString (trigger_source t)),
           (''event'', JString (trigger_event t)),
           (''payload'', (case trigger_payload t of None \<Rightarrow> JNull | Some m \<Rightarrow> JMap m))]"

definition framework_json :: "FrameworkInfo \<Rightarrow> json" where
  "framework_json f =
     JMap ([(''type'', JString (framework_type f)),
            (''version'', JString (framework_version f))]
           @ (case framework_config f of
                None \<Rightarrow> []
              | Some m \<Rightarrow> if m = [] then [] else [(''config'', JMap m)]))"

definition policy_json :: "PolicyInfo \<Rightarrow> json" where
  "policy_json p =
     JMap ([(''modelConstraints'', JMap [(''allowed'', strings_json (model_allowed p)),
                                         (''budget'', JString (model_budget p))]),
            (''toolConstraints'', JMap
               ([(''allowed'', strings_json (tool_allowed p))]
                @ (if tool_blocked p = None \<or> tool_blocked p = Some [] then []
                   else [(''blocked'', strings_json (tool_blocked p))])))]
           @ (if approval_required p then [(''approvalRequired'', JBool True)] else []))"

text \<open>\<open>now\<close> is \<^verbatim>\<open>time.Now().Unix()\<close>, the seconds since the epoch.\<close>

definition generateSessionID :: "int \<Rightarrow> string" where
  "generateSessionID now = ''session-'' @ itoa now"

datatype session_error = FailedToCreateSession

text \<open>
  \<^verbatim>\<open>CreateSession\<close>: the answer and the store after the call. The answer is the created
  object; its conversion to the \<^verbatim>\<open>Session\<close> struct is not modelled.
\<close>

definition CreateSession ::
  "(obj \<Rightarrow> bool) \<Rightarrow> store \<Rightarrow> int \<Rightarrow> SessionSpec \<Rightarrow> string \<Rightarrow> (session_error + obj) \<times> store" where
  "CreateSession admit st now spec namespace =
     (let sessionID = generateSessionID now;
          specMap = [(''trigger'', trigger_json (spec_trigger spec)),
                     (''framework'', framework_json (spec_framework spec))]
                    @ (if model_allowed (spec_policy spec) \<noteq> None \<or> tool_allowed (spec_policy spec) \<noteq> None
                       then [(''policy'', policy_json (spec_policy spec))] else []);
          sessionObj =
            [(''apiVersion'', JString ''ambient.ai/v1alpha1''),
             (''kind'', JString ''Session''),
             (''metadata'', JMap
                [(''name'', JString sessionID),
                 (''namespace'', JString namespace),
                 (''labels'', JMap
                    [(''ambient.ai/framework'', JString (framework_type (spec_framework spec))),
                     (''ambient.ai/source'', JString (trigger_source (spec_trigger spec)))])]),
             (''spec'', JMap specMap)]
      in case store_create admit namespace sessionObj st of
           None \<Rightarrow> (Inl FailedToCreateSession, st)
         | Some (createdSession, st') \<Rightarrow> (Inr createdSession, st'))"

section \<open>Webhook handler (WebhookHandler)\<close>

text \<open>
  What the handler reads of a request: the \<^verbatim>\<open>X-API-Key\<close> header, empty when the header
  is absent, and the body bound as a JSON object, \<open>None\<close> when the binding fails. A body
  that binds to the nil map is taken as the empty map.
\<close>

record webhook_request =
  apiKey :: string
  body :: "obj option"

datatype http_body =
    ErrorResponse string string string
  | WebhookResponse string string string string

definition keyToNamespace :: "(string \<times> string) list" where
  "keyToNamespace =
     [(''test-api-key-123'', ''team-alpha''),
      (''test-api-key-456'', ''team-alpha''),
      (''test-slack-key-789'', ''team-alpha''),
      (''budget-exceeded-key'', ''team-beta''),
      (''rate-limited-key'', ''team-gamma'')]"

text \<open>\<open>Inl\<close> is the error, by its text.\<close>

definition resolveNamespace :: "string \<Rightarrow> string + string" where
  "resolveNamespace key =
     (case map_of keyToNamespace key of
        None \<Rightarrow> Inl ''invalid_api_key''
      | Some namespace \<Rightarrow> Inr namespace)"

definition validateNamespacePolicy :: "string \<Rightarrow> string \<Rightarrow> string option" where
  "validateNamespacePolicy namespace source =
     (if namespace = ''team-beta'' then Some ''budget_exceeded''
      else if namespace = ''team-gamma'' then Some ''rate_limit_exceeded''
      else None)"

definition determineEventType :: "string \<Rightarrow> obj \<Rightarrow> string" where
  "determineEventType source payload =
     (if source = ''github'' then
        (case as_string (idx payload ''action'') of
           Some action \<Rightarrow> ''pull_request_'' @ action
         | None \<Rightarrow> ''unknown'')
      else if source = ''jira'' then
        (case as_string (idx payload ''webhookEvent'') of
           Some event \<Rightarrow> event
         | None \<Rightarrow> ''unknown'')
      else if source = ''slack'' then
        (case as_string (idx payload ''type'') of
           Some msgType \<Rightarrow> msgType
         | None \<Rightarrow> ''message'')
      else ''unknown'')"

definition determineFrameworkType :: "string \<Rightarrow> obj \<Rightarrow> string" where
  "determineFrameworkType source payload = ''claude-code''"

definition createSessionFromWebhook :: "string \<Rightarrow> string \<Rightarrow> string \<Rightarrow> string \<Rightarrow> obj \<Rightarrow> obj" where
  "createSessionFromWebhook now sessionID namespace source payload =
     (let eventType = determineEventType source payload;
          frameworkType = determineFrameworkType source payload
      in [(''apiVersion'', JString ''ambient.ai/v1alpha1''),
          (''kind'', JString ''Session''),
          (''metadata'', JMap
             [(''name'', JString sessionID),
              (''namespace'', JString namespace),
              (''labels'', JMap
                 [(''ambient.ai/trigger-source'', JString source),
                  (''ambient.ai/framework-type'', JString frameworkType)]),
              (''annotations'', JMap
                 [(''ambient.ai/created-by'', JString ''webhook-handler''),
                  (''ambient.ai/created-at'', JString now)])]),
          (''spec'', JMap
             [(''trigger'', JMap
                 [(''source'', JString source),
                  (''event'', JString eventType),
                  (''payload'', JMap payload)]),
              (''framework'', JMap
                 [(''type'', JString frameworkType),
                  (''version'', JString ''1.0''),
                  (''config'', JMap [])]),
              (''policy'', JMap
                 [(''modelConstraints'', JMap
                     [(''allowed'', JList [JString ''claude-3-sonnet'']),
                      (''budget'', JString ''100.00'')]),
                  (''toolConstraints'', JMap
                     [(''allowed'', JList [JString ''bash'', JString ''edit'', JString ''read'',
                                           JString ''write''])]),
                  (''approvalRequired'', JBool False)])])])"

text \<open>
  What the handler draws from outside for one request: the trace id, the UUID of the
  session, the formatted clock and the estimated start, and what the store admits.
\<close>

record webhook_env =
  wh_traceID :: string
  wh_uuid :: string
  wh_now :: string
  wh_estimatedStart :: string
  wh_admit :: "obj \<Rightarrow> bool"

text \<open>
  The outcome of one request: the HTTP status and body, the namespace and object of the
  create the store accepted, if any, and the store afterwards. \<open>client = None\<close> is the
  handler built on a nil client.
\<close>

record webhook_outcome =
  http_status :: nat
  http_answer :: http_body
  created :: "(string \<times> obj) option"
  store_after :: "store option"

definition reply :: "nat \<Rightarrow> http_body \<Rightarrow> store option \<Rightarrow> webhook_outcome" where
  "reply code answer client =
     \<lparr>http_status = code, http_answer = answer, created = None, store_after = client\<rparr>"

definition handleWebhook ::
  "webhook_env \<Rightarrow> store option \<Rightarrow> webhook_request \<Rightarrow> string \<Rightarrow> webhook_outcome" where
  "handleWebhook e client req source =
     (let traceID = wh_traceID e in
      if apiKey req = [] then
        reply 400 (ErrorResponse ''missing_api_key'' ''X-API-Key header is required'' traceID) client
      else
        (case resolveNamespace (apiKey req) of
           Inl err \<Rightarrow>
             if err = ''invalid_api_key''
             then reply 401 (ErrorResponse ''invalid_api_key'' ''API key is invalid or expired'' traceID) client
             else reply 500 (ErrorResponse ''namespace_resolution_failed'' ''Failed to resolve namespace''
                               traceID) client
         | Inr namespace \<Rightarrow>
             (case body req of
                None \<Rightarrow>
                  reply 400 (ErrorResponse ''invalid_payload'' ''Request body must be valid JSON'' traceID)
                    client
              | Some payload \<Rightarrow>
                  (case validateNamespacePolicy namespace source of
                     Some err \<Rightarrow>
                       if err = ''budget_exceeded''
                       then reply 403 (ErrorResponse ''policy_violation''
                              ''Session creation would exceed namespace budget'' traceID) client
                       else if err = ''rate_limit_exceeded''
                       then reply 429 (ErrorResponse ''rate_limit_exceeded''
                              ''Maximum sessions per minute exceeded'' traceID) client
                       else reply 403 (ErrorResponse ''policy_violation'' err traceID) client
                   | None \<Rightarrow>
                       (let sessionID = wh_uuid e in
                        case client of
                          None \<Rightarrow>
                            reply 202 (WebhookResponse sessionID namespace ''accepted''
                                         (wh_estimatedStart e)) client
                        | Some st \<Rightarrow>
                            (let session = createSessionFromWebhook (wh_now e) sessionID namespace
                                             source payload
                             in case store_create (wh_admit e) namespace session st of
                                  None \<Rightarrow>
                                    reply 500 (ErrorResponse ''session_creation_failed''
                                                 ''Failed to create session'' traceID) client
                                | Some (createdSession, st') \<Rightarrow>
                                    \<lparr>http_status = 202,
                                     http_answer = WebhookResponse (GetName createdSession) namespace
                                                     ''accepted'' (wh_estimatedStart e),
                                     created = Some (namespace, createdSession),
                                     store_after = Some st'\<rparr>))))))"

section \<open>API key middleware (SimpleAPIKeyAuth)\<close>



section \<open>The specification's state machine and budget rule\<close>

text \<open>
  The terminal phases and the edges of the state machine as the specification draws them,
  to compare with what the code does.
\<close>

definition spec_terminal :: "string \<Rightarrow> bool" where
  "spec_terminal p = (p \<in> set [''Completed'', ''Failed'', ''Stopped'', ''TimedOut''])"

definition spec_allowed_edge :: "string \<Rightarrow> string \<Rightarrow> bool" where
  "spec_allowed_edge p q =
     ((p, q) \<in> set [(''Pending'', ''Running''), (''Pending'', ''Failed''),
                    (''Running'', ''Completed''), (''Running'', ''Failed''),
                    (''Running'', ''TimedOut''), (''Running'', ''Stopped'')])"

text \<open>
  Budgets are decimal strings with two decimals; \<open>cents\<close> reads one as a number of
  hundredths. \<open>spec_budget_ok\<close> is the inequality the specification asks admission to
  enforce: the requested budget is at most the monthly budget less the current period's use.
\<close>

definition digit :: "char \<Rightarrow> nat option" where
  "digit c = (let n = of_char c :: nat in if 48 \<le> n \<and> n \<le> 57 then Some (n - 48) else None)"

fun number :: "nat \<Rightarrow> string \<Rightarrow> nat option" where
  "number acc [] = Some acc"
| "number acc (c # cs) = (case digit c of None \<Rightarrow> None | Some d \<Rightarrow> number (10 * acc + d) cs)"

definition cents :: "json \<Rightarrow> nat option" where
  "cents v =
     (case as_string v of
        None \<Rightarrow> None
      | Some s \<Rightarrow>
          (let whole = takeWhile (\<lambda>c. c \<noteq> CHR ''.'') s;
               frac = drop 1 (dropWhile (\<lambda>c. c \<noteq> CHR ''.'') s)
           in if whole = [] \<or> length frac \<noteq> 2 then None
              else (case (number 0 whole, number 0 frac) of
                      (Some w, Some f) \<Rightarrow> Some (100 * w + f)
                    | _ \<Rightarrow> None)))"

definition spec_budget_ok :: "obj \<Rightarrow> obj \<Rightarrow> bool" where
  "spec_budget_ok session policy =
     (case (cents (at_path (JMap session) [''spec'', ''policy'', ''modelConstraints'', ''budget'']),
            cents (at_path (JMap policy) [''spec'', ''models'', ''budget'', ''monthly'']),
            cents (at_path (JMap policy) [''status'', ''usage'', ''budget'', ''currentPeriod''])) of
        (Some b, Some monthly, Some used) \<Rightarrow> int b \<le> int monthly - int used
      | _ \<Rightarrow> False)"

section \<open>Changing one place of an object\<close>

text \<open>
  To say that an answer does not depend on a field, the properties below compare an object
  with the same object holding another value there. \<open>set_budget\<close> puts a value at
  \<^verbatim>\<open>spec.policy.modelConstraints.budget\<close> of a session, \<open>set_policy_budget\<close> puts values at
  \<^verbatim>\<open>spec.models.budget\<close> and at \<^verbatim>\<open>status\<close> of a policy, and \<open>set_phase\<close> puts a phase at
  \<^verbatim>\<open>status.phase\<close> of a session; an object without the maps on the way is left as it is.
  \<open>history_of\<close> is the list at \<^verbatim>\<open>status.history\<close>, empty when there is none.
\<close>

definition set_budget :: "json \<Rightarrow> obj \<Rightarrow> obj" where
  "set_budget b session =
     (case as_map (idx session ''spec'') of
        None \<Rightarrow> session
      | Some spec \<Rightarrow>
          (case as_map (idx spec ''policy'') of
             None \<Rightarrow> session
           | Some pol \<Rightarrow>
               (case as_map (idx pol ''modelConstraints'') of
                  None \<Rightarrow> session
                | Some mc \<Rightarrow>
                    put ''spec'' (JMap (put ''policy''
                      (JMap (put ''modelConstraints'' (JMap (put ''budget'' b mc)) pol)) spec)) session)))"

definition set_policy_budget :: "json \<Rightarrow> json \<Rightarrow> obj \<Rightarrow> obj" where
  "set_policy_budget budget status policy =
     put ''status'' status
       (case as_map (idx policy ''spec'') of
          None \<Rightarrow> policy
        | Some spec \<Rightarrow>
            (case as_map (idx spec ''models'') of
               None \<Rightarrow> policy
             | Some models \<Rightarrow>
                 put ''spec'' (JMap (put ''models'' (JMap (put ''budget'' budget models)) spec)) policy))"

definition set_phase :: "string \<Rightarrow> obj \<Rightarrow> obj" where
  "set_phase p session =
     (case as_map (idx session ''status'') of
        None \<Rightarrow> session
      | Some st \<Rightarrow> put ''status'' (JMap (put ''phase'' (JString p) st)) session)"

definition history_of :: "obj \<Rightarrow> json list" where
  "history_of session = list_at session [''status'', ''history'']"

section \<open>Example objects\<close>

text \<open>A concrete JSON encoder on which the examples below are evaluated.\<close>

fun join :: "string \<Rightarrow> string list \<Rightarrow> string" where
  "join sep [] = []"
| "join sep [x] = x"
| "join sep (x # y # ys) = x @ sep @ join sep (y # ys)"

fun encode :: "json \<Rightarrow> string" where
  "encode JNull = ''null''"
| "encode (JBool b) = (if b then ''true'' else ''false'')"
| "encode (JInt i) = itoa i"
| "encode (JString s) = CHR 0x22 # s @ [CHR 0x22]"
| "encode (JList xs) = ''['' @ join '','' (map encode xs) @ '']''"
| "encode (JMap m) =
     ''{'' @ join '','' (map (\<lambda>(k, v). CHR 0x22 # k @ [CHR 0x22] @ '':'' @ encode v) m) @ ''}''"

definition no_policy :: "string \<Rightarrow> lookup" where
  "no_policy namespace = NotFound"

definition entry :: "string \<Rightarrow> json" where
  "entry e = JMap [(''timestamp'', JString ''2025-01-01T00:00:00Z''), (''event'', JString e)]"

definition with_history :: "json list \<Rightarrow> obj" where
  "with_history h = [(''metadata'', JMap [(''name'', JString ''s1''), (''namespace'', JString ''team-alpha'')]),
                     (''status'', JMap [(''phase'', JString ''Running''), (''history'', JList h)])]"

definition the_policy :: "obj \<Rightarrow> string \<Rightarrow> lookup" where
  "the_policy policy namespace = Found policy"

definition example_session :: "string \<Rightarrow> string \<Rightarrow> obj" where
  "example_session frameworkType budget =
     [(''apiVersion'', JString ''ambient.ai/v1alpha1''),
      (''kind'', JString ''Session''),
      (''metadata'', JMap [(''name'', JString ''s1''), (''namespace'', JString ''team-alpha'')]),
      (''spec'', JMap
         [(''trigger'', JMap [(''source'', JString ''github''), (''event'', JString ''pull_request_opened''),
                              (''payload'', JMap [])]),
          (''framework'', JMap [(''type'', JString frameworkType), (''version'', JString ''1.0''),
                                (''config'', JMap [])]),
          (''policy'', JMap
             [(''modelConstraints'', JMap [(''allowed'', JList [JString ''claude-3-sonnet'']),
                                           (''budget'', JString budget)]),
              (''toolConstraints'', JMap [(''allowed'', JList [JString ''bash'', JString ''read''])]),
              (''approvalRequired'', JBool False)])])]"

definition example_policy :: "string \<Rightarrow> string \<Rightarrow> obj" where
  "example_policy monthly used =
     [(''metadata'', JMap [(''name'', JString ''policy''), (''namespace'', JString ''team-alpha'')]),
      (''spec'', JMap
         [(''models'', JMap [(''allowed'', JList [JString ''claude-3-sonnet'', JString ''claude-3-haiku'']),
                             (''blocked'', JList [JString ''gpt-4'']),
                             (''budget'', JMap [(''monthly'', JString monthly), (''currency'', JString ''USD'')])]),
          (''tools'', JMap [(''allowed'', JList [JString ''bash'', JString ''edit'', JString ''read'']),
                            (''blocked'', JList [JString ''exec''])])]),
      (''status'', JMap [(''usage'', JMap [(''budget'', JMap [(''currentPeriod'', JString used)])])])]"

definition session_v1 :: obj where
  "session_v1 =
     (''spec'', JMap
        [(''trigger'', JMap [(''source'', JString ''github''), (''event'', JString ''pull_request_opened'')]),
         (''framework'', JMap [(''type'', JString ''claude-code''), (''version'', JString ''1.0'')])])
     # with_history [entry ''Created'']"

definition session_v2 :: obj where
  "session_v2 =
     (''spec'', JMap
        [(''trigger'', JMap [(''source'', JString ''slack''), (''event'', JString ''message'')]),
         (''framework'', JMap [(''type'', JString ''bash-runner''), (''version'', JString ''2.0'')])])
     # with_history [entry ''Created'']"

definition session_in_phase :: "string \<Rightarrow> obj" where
  "session_in_phase p =
     [(''metadata'', JMap [(''name'', JString ''s1''), (''namespace'', JString ''team-alpha'')]),
      (''spec'', JMap [(''framework'', JMap [(''type'', JString ''claude-code'')])]),
      (''status'', JMap [(''phase'', JString p), (''history'', JList [entry ''Created''])])]"

definition no_job :: "string \<Rightarrow> string \<Rightarrow> lookup" where
  "no_job namespace name = NotFound"

definition no_text :: "verr \<Rightarrow> string" where
  "no_text err = ''error''"

definition quiet_env :: env where
  "quiet_env =
     \<lparr>env_now = ''2025-01-01T00:00:00Z'', env_policy = no_policy, env_owner_ok = True,
      env_create = Created, env_job = no_job, env_update_ok = True, env_text = no_text\<rparr>"

definition admit_all :: "obj \<Rightarrow> bool" where
  "admit_all u = True"

definition empty_store :: store where
  "empty_store key = None"

definition example_spec :: SessionSpec where
  "example_spec =
     \<lparr>spec_trigger = \<lparr>trigger_source = ''manual'', trigger_event = ''create'', trigger_payload = None\<rparr>,
      spec_framework = \<lparr>framework_type = ''claude-code'', framework_version = ''1.0'',
                        framework_config = None\<rparr>,
      spec_policy = \<lparr>model_allowed = None, model_budget = [], tool_allowed = None,
                     tool_blocked = None, approval_required = False\<rparr>\<rparr>"

definition example_webhook_env :: webhook_env where
  "example_webhook_env =
     \<lparr>wh_traceID = ''0011223344556677'', wh_uuid = ''550e8400-e29b-41d4-a716-446655440000'',
      wh_now = ''2025-01-01T00:00:00Z'', wh_estimatedStart = ''2025-01-01T00:00:05Z'',
      wh_admit = admit_all\<rparr>"


definition hinted_request :: "string \<Rightarrow> webhook_request" where
  "hinted_request tenant =
     \<lparr>apiKey = ''test-api-key-123'',
      body = Some [(''action'', JString ''opened''), (''namespace'', JString tenant),
                   (''tenant'', JString tenant)]\<rparr>"

section \<open>Properties of session admission\<close>

subsection \<open>The history check\<close>

lemma compare_entries_iff:
  "compare_entries m i oh nh = NoError \<longleftrightarrow>
     (\<forall>j < length oh. i + j < length nh \<and> m (oh ! j) = m (nh ! (i + j)))"
proof (induction oh arbitrary: i)
  case Nil
  then show ?case by simp
next
  case (Cons e es)
  show ?case
  proof
    assume a: "compare_entries m i (e # es) nh = NoError"
    then have 1: "i < length nh" "m e = m (nh ! i)" "compare_entries m (Suc i) es nh = NoError"
      by (auto split: if_splits)
    show "\<forall>j < length (e # es). i + j < length nh \<and> m ((e # es) ! j) = m (nh ! (i + j))"
    proof (intro allI impI)
      fix j assume "j < length (e # es)"
      then show "i + j < length nh \<and> m ((e # es) ! j) = m (nh ! (i + j))"
        using 1 Cons.IH[of "Suc i"] by (cases j) auto
    qed
  next
    assume a: "\<forall>j < length (e # es). i + j < length nh \<and> m ((e # es) ! j) = m (nh ! (i + j))"
    then have "i < length nh \<and> m e = m (nh ! i)" by force
    moreover have "\<forall>j < length es. Suc i + j < length nh \<and> m (es ! j) = m (nh ! (Suc i + j))"
      using a by force
    ultimately show "compare_entries m i (e # es) nh = NoError"
      using Cons.IH[of "Suc i"] by simp
  qed
qed

lemma status_history_path:
  "at_path (JMap u) [''status'', ''history''] = idx_nil (as_map (idx u ''status'')) ''history''"
  by (simp add: idx_nil_def split: option.splits)

lemma validateHistoryAppendOnly_iff:
  assumes "as_list (at_path (JMap old) [''status'', ''history'']) = Some oh"
  shows "validateHistoryAppendOnly m old new = NoError \<longleftrightarrow>
           (\<exists>nh. as_list (at_path (JMap new) [''status'', ''history'']) = Some nh
               \<and> length oh \<le> length nh
               \<and> (\<forall>j < length oh. m (oh ! j) = m (nh ! j)))"
proof -
  obtain os where os: "as_map (idx old ''status'') = Some os" "as_list (idx os ''history'') = Some oh"
    using assms unfolding status_history_path by (auto simp: idx_nil_def split: option.splits)
  show ?thesis
  proof (cases "as_list (at_path (JMap new) [''status'', ''history''])")
    case None
    then show ?thesis
      using os unfolding status_history_path by (simp add: validateHistoryAppendOnly_def)
  next
    case (Some nh)
    then show ?thesis
      using os unfolding status_history_path
      by (auto simp: validateHistoryAppendOnly_def compare_entries_iff)
  qed
qed

text \<open>
  Claim C3. An UPDATE whose old object carries a non-empty \<^verbatim>\<open>status.history\<close> is allowed
  exactly when the new object decodes and has a history that is at least as long and whose
  entry at every old index encodes to the same JSON text as the old entry. So an update
  that removes the history, shortens it, or changes an existing entry is not allowed.
\<close>

theorem history_append_only:
  assumes "operation req = ''UPDATE''"
      and "oldObject req = Some old"
      and "as_list (at_path (JMap old) [''status'', ''history'']) = Some oh"
      and "oh \<noteq> []"
  shows "Handle m get_policy req = Allowed \<longleftrightarrow>
           (\<exists>new nh. object req = Some new
               \<and> as_list (at_path (JMap new) [''status'', ''history'']) = Some nh
               \<and> length oh \<le> length nh
               \<and> (\<forall>j < length oh. m (oh ! j) = m (nh ! j)))"
proof (cases "object req")
  case None
  then show ?thesis by (simp add: Handle_def)
next
  case (Some new)
  have "Handle m get_policy req = Allowed \<longleftrightarrow> validateHistoryAppendOnly m old new = NoError"
    using assms(1,2) Some
    by (auto simp: Handle_def validateUpdate_def split: outcome.splits)
  then show ?thesis
    using validateHistoryAppendOnly_iff[OF assms(3)] Some by simp
qed

theorem history_append_only_witness:
  "Handle encode no_policy
     \<lparr>operation = ''UPDATE'',
      object = Some (with_history [entry ''Created'', entry ''PhaseChangedRunning'']),
      oldObject = Some (with_history [entry ''Created''])\<rparr> = Allowed
   \<and> Handle encode no_policy
     \<lparr>operation = ''UPDATE'',
      object = Some (with_history [entry ''Created'']),
      oldObject = Some (with_history [entry ''Created'', entry ''PhaseChangedRunning''])\<rparr> \<noteq> Allowed"
proof -
  let ?a = "with_history [entry ''Created'']"
  let ?b = "with_history [entry ''Created'', entry ''PhaseChangedRunning'']"
  have pa: "as_list (at_path (JMap ?a) [''status'', ''history'']) = Some [entry ''Created'']"
    by (simp add: with_history_def idx_def)
  have pb: "as_list (at_path (JMap ?b) [''status'', ''history''])
             = Some [entry ''Created'', entry ''PhaseChangedRunning'']"
    by (simp add: with_history_def idx_def)
  have 1: "Handle encode no_policy \<lparr>operation = ''UPDATE'', object = Some ?b, oldObject = Some ?a\<rparr> = Allowed"
    using history_append_only[of "\<lparr>operation = ''UPDATE'', object = Some ?b, oldObject = Some ?a\<rparr>"
        ?a "[entry ''Created'']" encode no_policy] pa pb
    by simp
  have 2: "Handle encode no_policy \<lparr>operation = ''UPDATE'', object = Some ?a, oldObject = Some ?b\<rparr> \<noteq> Allowed"
    using history_append_only[of "\<lparr>operation = ''UPDATE'', object = Some ?a, oldObject = Some ?b\<rparr>"
        ?b "[entry ''Created'', entry ''PhaseChangedRunning'']" encode no_policy] pa pb
    by simp
  show ?thesis using 1 2 by simp
qed

lemma idx_put: "idx (put k v m) k' = (if k' = k then v else idx m k')"
  by (induction m) (auto simp: idx_def)

lemma as_string_Some: "as_string a = Some y \<Longrightarrow> a = JString y"
  by (cases a) auto

lemma str_mem_True: "str_mem s xs = Some True \<Longrightarrow> JString s \<in> set xs"
  by (induction xs) (auto split: option.splits if_splits dest: as_string_Some)

lemma str_mem_False: "str_mem s xs = Some False \<Longrightarrow> JString s \<notin> set xs"
  by (induction xs) (auto split: option.splits if_splits dest: as_string_Some)

lemma str_found_True: "str_found r xs = Some True \<Longrightarrow> r \<in> set xs"
  by (auto simp: str_found_def split: if_splits option.splits dest: as_string_Some str_mem_True)

lemma str_found_False: "str_found r xs = Some False \<Longrightarrow> r \<notin> set xs"
  by (auto simp: str_found_def split: if_splits option.splits dest: as_string_Some str_mem_False)

lemma check_allowed_NoError: "check_allowed mk rs allowed = NoError \<Longrightarrow> set rs \<subseteq> set allowed"
  by (induction rs) (auto split: option.splits bool.splits dest: str_found_True)

lemma check_blocked_NoError: "check_blocked mk rs blocked = NoError \<Longrightarrow> set rs \<inter> set blocked = {}"
  by (induction rs) (auto split: option.splits bool.splits dest: str_found_False)

lemma check_lists_NoError:
  assumes "check_lists na ib requested part = NoError"
  shows "(list_at part [''allowed''] \<noteq> [] \<longrightarrow> set requested \<subseteq> set (list_at part [''allowed'']))
       \<and> set requested \<inter> set (list_at part [''blocked'']) = {}"
  using assms
  by (auto simp: check_lists_def list_at_def split: option.splits outcome.splits
      dest: check_allowed_NoError check_blocked_NoError)

lemma list_at_1:
  "list_at u [k] = (case as_list (idx u k) of None \<Rightarrow> [] | Some xs \<Rightarrow> xs)"
  by (simp add: list_at_def)

lemma list_at_3:
  "list_at u [a, b, c] =
     (case as_map (idx u a) of
        None \<Rightarrow> []
      | Some x \<Rightarrow> (case as_map (idx x b) of None \<Rightarrow> [] | Some y \<Rightarrow> list_at y [c]))"
  by (simp add: list_at_def split: option.splits)

lemma list_at_4:
  "list_at u [a, b, c, d] =
     (case as_map (idx u a) of
        None \<Rightarrow> []
      | Some x \<Rightarrow>
          (case as_map (idx x b) of
             None \<Rightarrow> []
           | Some y \<Rightarrow> (case as_map (idx y c) of None \<Rightarrow> [] | Some z \<Rightarrow> list_at z [d])))"
  by (simp add: list_at_def split: option.splits)

lemma validateModelConstraints_NoError:
  assumes "validateModelConstraints (as_map (idx s ''spec'')) (as_map (idx p ''spec'')) = NoError"
  shows "(list_at p [''spec'', ''models'', ''allowed''] \<noteq> [] \<longrightarrow>
            set (list_at s [''spec'', ''policy'', ''modelConstraints'', ''allowed''])
              \<subseteq> set (list_at p [''spec'', ''models'', ''allowed'']))
       \<and> set (list_at s [''spec'', ''policy'', ''modelConstraints'', ''allowed''])
            \<inter> set (list_at p [''spec'', ''models'', ''blocked'']) = {}"
  using assms unfolding validateModelConstraints_def list_at_4 list_at_3 idx_nil_def
  by (auto split: option.splits dest!: check_lists_NoError simp: list_at_1) blast+

lemma validateToolConstraints_NoError:
  assumes "validateToolConstraints (as_map (idx s ''spec'')) (as_map (idx p ''spec'')) = NoError"
  shows "(list_at p [''spec'', ''tools'', ''allowed''] \<noteq> [] \<longrightarrow>
            set (list_at s [''spec'', ''policy'', ''toolConstraints'', ''allowed''])
              \<subseteq> set (list_at p [''spec'', ''tools'', ''allowed'']))
       \<and> set (list_at s [''spec'', ''policy'', ''toolConstraints'', ''allowed''])
            \<inter> set (list_at p [''spec'', ''tools'', ''blocked'']) = {}"
  using assms unfolding validateToolConstraints_def list_at_4 list_at_3 idx_nil_def
  by (auto split: option.splits dest!: check_lists_NoError simp: list_at_1) blast+

lemma validateSessionAgainstPolicy_NoError:
  assumes "validateSessionAgainstPolicy s p = NoError"
  shows "validateModelConstraints (as_map (idx s ''spec'')) (as_map (idx p ''spec'')) = NoError"
    and "validateToolConstraints (as_map (idx s ''spec'')) (as_map (idx p ''spec'')) = NoError"
  using assms by (auto simp: validateSessionAgainstPolicy_def Let_def split: outcome.splits)

lemma validateCreate_Allowed:
  "validateCreate get_policy s = Allowed \<longleftrightarrow>
     validateFrameworkType s = NoError \<and> validateAgainstNamespacePolicy get_policy s = NoError"
  by (auto simp: validateCreate_def split: outcome.splits)

subsection \<open>Models and tools on create\<close>

text \<open>
  Claim C6, amended. When the namespace has a policy and the create is allowed, every
  requested model is in the policy's allowed models if that list is not empty and none is
  in its blocked models, and likewise for tools. When the namespace has no policy the
  policy check passes, and the create is allowed exactly when the framework type is one
  of the available runner types.
\<close>

theorem create_policy_lists:
  "(validateCreate get_policy s = Allowed \<and> get_policy (GetNamespace s) = Found p \<longrightarrow>
      (list_at p [''spec'', ''models'', ''allowed''] \<noteq> [] \<longrightarrow>
         set (list_at s [''spec'', ''policy'', ''modelConstraints'', ''allowed''])
           \<subseteq> set (list_at p [''spec'', ''models'', ''allowed'']))
      \<and> set (list_at s [''spec'', ''policy'', ''modelConstraints'', ''allowed''])
           \<inter> set (list_at p [''spec'', ''models'', ''blocked'']) = {}
      \<and> (list_at p [''spec'', ''tools'', ''allowed''] \<noteq> [] \<longrightarrow>
         set (list_at s [''spec'', ''policy'', ''toolConstraints'', ''allowed''])
           \<subseteq> set (list_at p [''spec'', ''tools'', ''allowed'']))
      \<and> set (list_at s [''spec'', ''policy'', ''toolConstraints'', ''allowed''])
           \<inter> set (list_at p [''spec'', ''tools'', ''blocked'']) = {})
   \<and> (get_policy (GetNamespace s) = NotFound \<and> GetNamespace s \<noteq> [] \<longrightarrow>
        validateAgainstNamespacePolicy get_policy s = NoError
        \<and> (validateCreate get_policy s = Allowed \<longleftrightarrow> validateFrameworkType s = NoError))"
proof (intro conjI impI)
  assume a: "validateCreate get_policy s = Allowed \<and> get_policy (GetNamespace s) = Found p"
  then have "validateSessionAgainstPolicy s p = NoError"
    by (auto simp: validateCreate_Allowed validateAgainstNamespacePolicy_def Let_def split: if_splits)
  note ok = validateSessionAgainstPolicy_NoError[OF this]
  show "list_at p [''spec'', ''models'', ''allowed''] \<noteq> [] \<Longrightarrow>
         set (list_at s [''spec'', ''policy'', ''modelConstraints'', ''allowed''])
           \<subseteq> set (list_at p [''spec'', ''models'', ''allowed''])"
    using validateModelConstraints_NoError[OF ok(1)] by blast
  show "set (list_at s [''spec'', ''policy'', ''modelConstraints'', ''allowed''])
           \<inter> set (list_at p [''spec'', ''models'', ''blocked'']) = {}"
    using validateModelConstraints_NoError[OF ok(1)] by blast
  show "list_at p [''spec'', ''tools'', ''allowed''] \<noteq> [] \<Longrightarrow>
         set (list_at s [''spec'', ''policy'', ''toolConstraints'', ''allowed''])
           \<subseteq> set (list_at p [''spec'', ''tools'', ''allowed''])"
    using validateToolConstraints_NoError[OF ok(2)] by blast
  show "set (list_at s [''spec'', ''policy'', ''toolConstraints'', ''allowed''])
           \<inter> set (list_at p [''spec'', ''tools'', ''blocked'']) = {}"
    using validateToolConstraints_NoError[OF ok(2)] by blast
next
  assume a: "get_policy (GetNamespace s) = NotFound \<and> GetNamespace s \<noteq> []"
  then show v: "validateAgainstNamespacePolicy get_policy s = NoError"
    by (simp add: validateAgainstNamespacePolicy_def)
  then show "validateCreate get_policy s = Allowed \<longleftrightarrow> validateFrameworkType s = NoError"
    by (simp add: validateCreate_Allowed)
qed

lemma set_budget_metadata: "idx (set_budget b s) ''metadata'' = idx s ''metadata''"
  by (simp add: set_budget_def idx_put split: option.splits)

lemma set_budget_GetNamespace: "GetNamespace (set_budget b s) = GetNamespace s"
  by (simp add: GetNamespace_def set_budget_metadata)

lemma set_budget_validateFrameworkType:
  "validateFrameworkType (set_budget b s) = validateFrameworkType s"
  by (simp add: validateFrameworkType_def set_budget_def idx_put split: option.splits)

lemma policy_models_budget_frame:
  assumes "as_map (idx ps ''models'') = Some models"
  shows "validateFrameworkConstraints ss (Some (put ''models'' (JMap (put ''budget'' v models)) ps))
           = validateFrameworkConstraints ss (Some ps)"
    and "validateModelConstraints ss (Some (put ''models'' (JMap (put ''budget'' v models)) ps))
           = validateModelConstraints ss (Some ps)"
    and "validateToolConstraints ss (Some (put ''models'' (JMap (put ''budget'' v models)) ps))
           = validateToolConstraints ss (Some ps)"
  using assms
  by (simp_all add: validateFrameworkConstraints_def validateModelConstraints_def
      validateToolConstraints_def check_lists_def idx_nil_def idx_put Let_def
      split: option.splits)

lemma session_budget_frame:
  assumes "as_map (idx spec ''policy'') = Some pol"
      and "as_map (idx pol ''modelConstraints'') = Some mc"
  shows "validateFrameworkConstraints
           (Some (put ''policy'' (JMap (put ''modelConstraints'' (JMap (put ''budget'' v mc)) pol)) spec)) ps
           = validateFrameworkConstraints (Some spec) ps"
    and "validateModelConstraints
           (Some (put ''policy'' (JMap (put ''modelConstraints'' (JMap (put ''budget'' v mc)) pol)) spec)) ps
           = validateModelConstraints (Some spec) ps"
    and "validateToolConstraints
           (Some (put ''policy'' (JMap (put ''modelConstraints'' (JMap (put ''budget'' v mc)) pol)) spec)) ps
           = validateToolConstraints (Some spec) ps"
  using assms
  by (simp_all add: validateFrameworkConstraints_def validateModelConstraints_def
      validateToolConstraints_def idx_nil_def idx_put Let_def split: option.splits)

lemma set_budget_spec:
  "validateFrameworkConstraints (as_map (idx (set_budget b s) ''spec'')) ps
     = validateFrameworkConstraints (as_map (idx s ''spec'')) ps"
  "validateModelConstraints (as_map (idx (set_budget b s) ''spec'')) ps
     = validateModelConstraints (as_map (idx s ''spec'')) ps"
  "validateToolConstraints (as_map (idx (set_budget b s) ''spec'')) ps
     = validateToolConstraints (as_map (idx s ''spec'')) ps"
  by (simp_all add: set_budget_def idx_put session_budget_frame split: option.splits)

lemma set_policy_budget_spec:
  "validateFrameworkConstraints ss (as_map (idx (set_policy_budget budget status p) ''spec''))
     = validateFrameworkConstraints ss (as_map (idx p ''spec''))"
  "validateModelConstraints ss (as_map (idx (set_policy_budget budget status p) ''spec''))
     = validateModelConstraints ss (as_map (idx p ''spec''))"
  "validateToolConstraints ss (as_map (idx (set_policy_budget budget status p) ''spec''))
     = validateToolConstraints ss (as_map (idx p ''spec''))"
  by (simp_all add: set_policy_budget_def idx_put policy_models_budget_frame split: option.splits)

lemma set_budget_validateSessionAgainstPolicy:
  "validateSessionAgainstPolicy (set_budget b s) p = validateSessionAgainstPolicy s p"
  by (simp add: validateSessionAgainstPolicy_def set_budget_spec Let_def cong: outcome.case_cong)

lemma set_policy_budget_validateSessionAgainstPolicy:
  "validateSessionAgainstPolicy s (set_policy_budget budget status p) = validateSessionAgainstPolicy s p"
  by (simp add: validateSessionAgainstPolicy_def set_policy_budget_spec Let_def
      cong: outcome.case_cong)

lemma budget_validateAgainstNamespacePolicy:
  "validateAgainstNamespacePolicy (the_policy (set_policy_budget budget status p)) (set_budget b s)
     = validateAgainstNamespacePolicy (the_policy p) s"
  by (simp add: validateAgainstNamespacePolicy_def the_policy_def set_budget_GetNamespace Let_def
      set_budget_validateSessionAgainstPolicy set_policy_budget_validateSessionAgainstPolicy)

theorem create_policy_lists_witness:
  "validateCreate (the_policy (example_policy ''100.00'' ''40.00'')) (example_session ''claude-code'' ''60.00'')
     = Allowed
   \<and> set (list_at (example_session ''claude-code'' ''60.00'') [''spec'', ''policy'', ''modelConstraints'', ''allowed''])
       \<subseteq> set (list_at (example_policy ''100.00'' ''40.00'') [''spec'', ''models'', ''allowed''])
   \<and> set (list_at (example_session ''claude-code'' ''60.00'') [''spec'', ''policy'', ''toolConstraints'', ''allowed''])
       \<inter> set (list_at (example_policy ''100.00'' ''40.00'') [''spec'', ''tools'', ''blocked'']) = {}
   \<and> validateCreate no_policy (example_session ''claude-code'' ''60.00'') = Allowed"
proof -
  let ?s = "example_session ''claude-code'' ''60.00''"
  let ?p = "example_policy ''100.00'' ''40.00''"
  have ns: "GetNamespace ?s = ''team-alpha''"
    by (simp add: GetNamespace_def example_session_def idx_def)
  have fw: "validateFrameworkType ?s = NoError"
    by (simp add: validateFrameworkType_def example_session_def idx_def availableFrameworks_def)
  have ok: "validateCreate (the_policy ?p) ?s = Allowed"
    by (simp add: validateCreate_def validateFrameworkType_def validateAgainstNamespacePolicy_def
        validateSessionAgainstPolicy_def validateFrameworkConstraints_def validateModelConstraints_def
        validateToolConstraints_def check_lists_def str_found_def GetNamespace_def the_policy_def
        example_session_def example_policy_def idx_def idx_nil_def availableFrameworks_def)
  have found: "the_policy ?p (GetNamespace ?s) = Found ?p"
    by (simp add: the_policy_def)
  have nonempty: "list_at ?p [''spec'', ''models'', ''allowed''] \<noteq> []"
    by (simp add: list_at_def example_policy_def idx_def)
  have none: "no_policy (GetNamespace ?s) = NotFound"
    by (simp add: no_policy_def)
  from create_policy_lists[of "the_policy ?p" ?s ?p] ok found nonempty
  have 1: "set (list_at ?s [''spec'', ''policy'', ''modelConstraints'', ''allowed''])
             \<subseteq> set (list_at ?p [''spec'', ''models'', ''allowed''])"
    and 2: "set (list_at ?s [''spec'', ''policy'', ''toolConstraints'', ''allowed''])
             \<inter> set (list_at ?p [''spec'', ''tools'', ''blocked'']) = {}"
    by blast+
  from create_policy_lists[of no_policy ?s] none ns fw
  have 3: "validateCreate no_policy ?s = Allowed"
    by simp
  show ?thesis using ok 1 2 3 by blast
qed

text \<open>
  Claim C6 as stated fails: with no policy in the namespace, a create whose framework type
  is \<^verbatim>\<open>generic\<close> is denied.
\<close>

theorem create_without_policy_counterexample:
  "no_policy (GetNamespace (example_session ''generic'' ''60.00'')) = NotFound
   \<and> validateCreate no_policy (example_session ''generic'' ''60.00'')
       = Denied (InvalidFrameworkType (UnsupportedFramework ''generic''))
   \<and> validateCreate no_policy (example_session ''generic'' ''60.00'') \<noteq> Allowed"
  by (simp add: no_policy_def validateCreate_def validateFrameworkType_def example_session_def
      idx_def availableFrameworks_def)

subsection \<open>Budget on create\<close>

lemma validateBudget_NoError: "validateBudget ss ps = NoError"
  by (simp add: validateBudget_def split: option.splits)

text \<open>
  Claim C5, amended. Admission of a create does not depend on the budget the session
  requests, on the budget of the policy or on the usage in the policy's status: the same
  create with other budgets gets the same answer. The reconciler's \<^verbatim>\<open>validateBudget\<close>
  returns no error whatever the budgets are.
\<close>

theorem budget_not_enforced:
  "validateCreate (the_policy (set_policy_budget budget status p)) (set_budget b s)
     = validateCreate (the_policy p) s
   \<and> validateBudget sessionSpec policySpec = NoError"
  by (simp add: validateCreate_def set_budget_validateFrameworkType
      budget_validateAgainstNamespacePolicy validateBudget_NoError cong: outcome.case_cong)

theorem budget_not_enforced_witness:
  "validateCreate (the_policy (example_policy ''100.00'' ''40.00'')) (example_session ''claude-code'' ''60.01'')
     = validateCreate (the_policy (example_policy ''100.00'' ''40.00'')) (example_session ''claude-code'' ''60.00'')"
proof -
  let ?p = "example_policy ''100.00'' ''40.00''"
  have s: "set_budget (JString ''60.01'') (example_session ''claude-code'' ''60.00'')
             = example_session ''claude-code'' ''60.01''"
    by (simp add: set_budget_def example_session_def idx_def)
  have p: "set_policy_budget
             (JMap [(''monthly'', JString ''100.00''), (''currency'', JString ''USD'')])
             (JMap [(''usage'', JMap [(''budget'', JMap [(''currentPeriod'', JString ''40.00'')])])]) ?p = ?p"
    by (simp add: set_policy_budget_def example_policy_def idx_def)
  from budget_not_enforced[of
      "JMap [(''monthly'', JString ''100.00''), (''currency'', JString ''USD'')]"
      "JMap [(''usage'', JMap [(''budget'', JMap [(''currentPeriod'', JString ''40.00'')])])]"
      ?p "JString ''60.01''" "example_session ''claude-code'' ''60.00''"]
  show ?thesis unfolding s p by simp
qed

text \<open>
  Claim C5 as stated fails: with a monthly budget of 100.00 of which 40.00 is used, a
  create that requests 60.01, one hundredth over the remaining allowance, is allowed.
\<close>

theorem budget_over_allowance_counterexample:
  "\<not> spec_budget_ok (example_session ''claude-code'' ''60.01'') (example_policy ''100.00'' ''40.00'')
   \<and> validateCreate (the_policy (example_policy ''100.00'' ''40.00''))
        (example_session ''claude-code'' ''60.01'') = Allowed"
proof -
  have 1: "\<not> spec_budget_ok (example_session ''claude-code'' ''60.01'') (example_policy ''100.00'' ''40.00'')"
    by (simp add: spec_budget_ok_def example_session_def example_policy_def idx_def cents_def digit_def)
  have 2: "validateCreate (the_policy (example_policy ''100.00'' ''40.00''))
        (example_session ''claude-code'' ''60.01'') = Allowed"
    by (simp add: validateCreate_def validateFrameworkType_def validateAgainstNamespacePolicy_def
        validateSessionAgainstPolicy_def validateFrameworkConstraints_def validateModelConstraints_def
        validateToolConstraints_def check_lists_def str_found_def GetNamespace_def the_policy_def
        example_session_def example_policy_def idx_def idx_nil_def availableFrameworks_def)
  show ?thesis using 1 2 by simp
qed

subsection \<open>Immutable fields on update\<close>

lemma validateHistoryAppendOnly_status:
  assumes "idx old ''status'' = idx old' ''status''" and "idx new ''status'' = idx new' ''status''"
  shows "validateHistoryAppendOnly m old new = validateHistoryAppendOnly m old' new'"
  using assms by (simp add: validateHistoryAppendOnly_def)

text \<open>
  Claim C2, amended. The answer to an UPDATE depends on the \<^verbatim>\<open>status\<close> of the old and
  of the new object only: an update that changes \<^verbatim>\<open>spec.trigger\<close>, \<^verbatim>\<open>spec.framework\<close> or
  any other field outside \<^verbatim>\<open>status\<close> gets the answer the same update gets without that
  change.
\<close>

theorem update_reads_status_only:
  assumes "idx old ''status'' = idx old' ''status''"
      and "idx new ''status'' = idx new' ''status''"
  shows "Handle m get_policy \<lparr>operation = ''UPDATE'', object = Some new, oldObject = Some old\<rparr>
       = Handle m get_policy \<lparr>operation = ''UPDATE'', object = Some new', oldObject = Some old'\<rparr>"
  using validateHistoryAppendOnly_status[OF assms]
  by (simp add: Handle_def validateUpdate_def)

theorem update_reads_status_only_witness:
  "idx session_v1 ''status'' = idx session_v2 ''status''
   \<and> Handle encode no_policy \<lparr>operation = ''UPDATE'', object = Some session_v2, oldObject = Some session_v1\<rparr>
     = Handle encode no_policy \<lparr>operation = ''UPDATE'', object = Some session_v1, oldObject = Some session_v1\<rparr>"
proof -
  have st: "idx session_v1 ''status'' = idx session_v2 ''status''"
    by (simp add: session_v1_def session_v2_def idx_def)
  from update_reads_status_only[OF refl st, of encode no_policy session_v1] st
  show ?thesis by simp
qed

text \<open>
  Claim C2 as stated fails: an update that changes \<^verbatim>\<open>spec.framework\<close> and
  \<^verbatim>\<open>spec.trigger\<close> and keeps the history is allowed.
\<close>

theorem immutable_fields_counterexample:
  "Handle encode no_policy \<lparr>operation = ''UPDATE'', object = Some session_v2, oldObject = Some session_v1\<rparr>
     = Allowed
   \<and> at_path (JMap session_v2) [''spec'', ''framework''] \<noteq> at_path (JMap session_v1) [''spec'', ''framework'']
   \<and> at_path (JMap session_v2) [''spec'', ''trigger''] \<noteq> at_path (JMap session_v1) [''spec'', ''trigger'']"
  by (simp add: Handle_def validateUpdate_def validateHistoryAppendOnly_def session_v1_def session_v2_def
      with_history_def entry_def idx_def idx_nil_def)

subsection \<open>Operations other than CREATE and UPDATE\<close>

text \<open>
  Claim C9, amended. A request whose object decodes and whose operation is neither CREATE
  nor UPDATE is allowed; a request whose object does not decode is answered with an error
  of code 400, whatever its operation.
\<close>

theorem handle_other_operations:
  "(object req = Some session \<and> operation req \<noteq> ''CREATE'' \<and> operation req \<noteq> ''UPDATE''
      \<longrightarrow> Handle m get_policy req = Allowed)
   \<and> (object req = None \<longrightarrow> Handle m get_policy req = Errored 400)"
  by (simp add: Handle_def)

theorem handle_other_operations_witness:
  "Handle encode no_policy \<lparr>operation = ''DELETE'', object = Some session_v1, oldObject = Some session_v1\<rparr>
     = Allowed
   \<and> Handle encode no_policy \<lparr>operation = ''CONNECT'', object = None, oldObject = None\<rparr> = Errored 400"
proof -
  from handle_other_operations[of
      "\<lparr>operation = ''DELETE'', object = Some session_v1, oldObject = Some session_v1\<rparr>"
      session_v1 encode no_policy]
  have 1: "Handle encode no_policy
             \<lparr>operation = ''DELETE'', object = Some session_v1, oldObject = Some session_v1\<rparr> = Allowed"
    by simp
  from handle_other_operations[of
      "\<lparr>operation = ''CONNECT'', object = None, oldObject = None\<rparr>" session_v1 encode no_policy]
  have 2: "Handle encode no_policy \<lparr>operation = ''CONNECT'', object = None, oldObject = None\<rparr>
             = Errored 400"
    by simp
  show ?thesis using 1 2 by simp
qed

text \<open>
  Claim C9 as stated fails: a DELETE request whose object does not decode is not allowed
  but answered with an error of code 400.
\<close>

theorem handle_delete_counterexample:
  "Handle encode no_policy \<lparr>operation = ''DELETE'', object = None, oldObject = Some session_v1\<rparr>
     = Errored 400
   \<and> Handle encode no_policy \<lparr>operation = ''DELETE'', object = None, oldObject = Some session_v1\<rparr>
     \<noteq> Allowed"
  by (simp add: Handle_def)

section \<open>Properties of the reconcilers\<close>

lemma idx_Nil: "idx [] k = JNull"
  by (simp add: idx_def)

lemma list_at_2:
  "list_at u [a, b] =
     (case as_map (idx u a) of
        None \<Rightarrow> []
      | Some x \<Rightarrow> (case as_list (idx x b) of None \<Rightarrow> [] | Some l \<Rightarrow> l))"
  by (simp add: list_at_def split: option.splits)

lemma updatePhase_getPhase:
  "p \<noteq> [] \<Longrightarrow> getPhase (fst (updatePhase e s p msg)) = p"
  by (simp add: updatePhase_def Let_def getPhase_def idx_put)

lemma updateWorkloadInfo_getPhase: "getPhase (updateWorkloadInfo e s j) = getPhase s"
  by (simp add: updateWorkloadInfo_def Let_def getPhase_def idx_put idx_Nil split: option.splits)

lemma updatePhase_history:
  "list_at (fst (updatePhase e s p msg)) [''status'', ''history'']
     = list_at s [''status'', ''history'']
       @ [JMap [(''timestamp'', JString (env_now e)),
                (''event'', JString (''PhaseChanged'' @ p)),
                (''data'', JMap [(''phase'', JString p), (''message'', JString msg)])]]"
  by (simp add: updatePhase_def Let_def list_at_2 idx_put idx_Nil split: option.splits)

lemma updateWorkloadInfo_history:
  "list_at (updateWorkloadInfo e s j) [''status'', ''history''] = list_at s [''status'', ''history'']"
  by (simp add: updateWorkloadInfo_def Let_def list_at_2 idx_put idx_Nil split: option.splits)

lemma buildJob_GetName: "GetName (buildJob s frameworkType) = GetName s @ ''-runner''"
  by (simp add: buildJob_def GetName_def idx_def)

lemma createWorkload_getPhase: "getPhase (fst (createWorkload e s)) = getPhase s"
  by (simp add: createWorkload_def Let_def updateWorkloadInfo_getPhase)

lemma handlePending_phase:
  "getPhase (fst (handlePending e s)) \<in> {getPhase s, ''Running'', ''Failed''}"
  by (auto simp: handlePending_def updatePhase_getPhase PhaseFailed_def PhaseRunning_def
      createWorkload_getPhase
      split: outcome.splits prod.splits
      dest: arg_cong[where f = "\<lambda>x. getPhase (fst x)"])

lemma handleRunning_phase:
  "getPhase (fst (handleRunning e s)) \<in> {getPhase s, ''Completed'', ''Failed''}"
  by (auto simp: handleRunning_def updatePhase_getPhase PhaseFailed_def PhaseCompleted_def
      split: option.splits)

lemma set_phase_validateHistoryAppendOnly:
  "validateHistoryAppendOnly m old (set_phase p new) = validateHistoryAppendOnly m old new"
  by (simp add: validateHistoryAppendOnly_def set_phase_def idx_put idx_nil_def split: option.splits)

lemma Reconcile_terminal:
  assumes "getPhase s = ''Completed'' \<or> getPhase s = ''Failed''"
  shows "Reconcile e (Found s) = (Some s, Done)"
  using assms
  by (auto simp: Reconcile_def Let_def PhasePending_def PhaseRunning_def PhaseCompleted_def PhaseFailed_def)

lemma markSessionViolation_terminal:
  assumes "getPhase s = ''Completed'' \<or> getPhase s = ''Failed''"
  shows "markSessionViolation now s v = (s, False)"
  using assms
  by (auto simp: markSessionViolation_def Let_def getPhase_def PhasePending_def
      split: option.splits if_splits)

lemma markSessionViolation_Failed:
  assumes "getPhase s \<noteq> ''Completed''" and "getPhase s \<noteq> ''Failed''"
  shows "getPhase (fst (markSessionViolation now s v)) = ''Failed''"
  using assms
  by (auto simp: markSessionViolation_def Let_def getPhase_def PhasePending_def idx_put idx_Nil
      split: option.splits if_splits)

lemma Reconcile_known:
  assumes "getPhase s = ''Pending'' \<or> getPhase s = ''Running''"
  shows "\<exists>s' r. Reconcile e (Found s) = (Some s', r)
           \<and> (getPhase s' = getPhase s
               \<or> spec_allowed_edge (getPhase s) (getPhase s')
                 \<and> IsPhaseTransitionValid (getPhase s) (getPhase s'))"
proof -
  from assms show ?thesis
  proof
    assume p: "getPhase s = ''Pending''"
    obtain s' r where h: "handlePending e s = (s', r)" by (cases "handlePending e s")
    have "getPhase s' \<in> {''Pending'', ''Running'', ''Failed''}"
      using handlePending_phase[of e s] h p by auto
    moreover have "Reconcile e (Found s) = (Some s', r)"
      using p h by (simp add: Reconcile_def PhasePending_def)
    ultimately show ?thesis
      using p
      by (auto simp: spec_allowed_edge_def IsPhaseTransitionValid_def validTransitions_def
          SessionPhasePending_def SessionPhaseRunning_def SessionPhaseCompleted_def SessionPhaseFailed_def)
  next
    assume p: "getPhase s = ''Running''"
    obtain s' r where h: "handleRunning e s = (s', r)" by (cases "handleRunning e s")
    have "getPhase s' \<in> {''Running'', ''Completed'', ''Failed''}"
      using handleRunning_phase[of e s] h p by auto
    moreover have "Reconcile e (Found s) = (Some s', r)"
      using p h by (simp add: Reconcile_def PhasePending_def PhaseRunning_def)
    ultimately show ?thesis
      using p
      by (auto simp: spec_allowed_edge_def IsPhaseTransitionValid_def validTransitions_def
          SessionPhasePending_def SessionPhaseRunning_def SessionPhaseCompleted_def SessionPhaseFailed_def)
  qed
qed

lemma Reconcile_unknown:
  assumes "getPhase s \<notin> set [''Pending'', ''Running'', ''Completed'', ''Failed'']"
  shows "\<exists>s' r. Reconcile e (Found s) = (Some s', r) \<and> getPhase s' = ''Pending''"
proof -
  obtain s' r where h: "updatePhase e s PhasePending ''Unknown phase detected, resetting to Pending'' = (s', r)"
    by (cases "updatePhase e s PhasePending ''Unknown phase detected, resetting to Pending''")
  have "getPhase s' = ''Pending''"
    using updatePhase_getPhase[of PhasePending e s "''Unknown phase detected, resetting to Pending''"] h
    by (simp add: PhasePending_def)
  moreover have "Reconcile e (Found s) = (Some s', r)"
    using assms h
    by (simp add: Reconcile_def PhasePending_def PhaseRunning_def PhaseCompleted_def PhaseFailed_def)
  ultimately show ?thesis by blast
qed

text \<open>
  Claim C1, amended. The phases the code knows are Pending, Running, Completed and Failed.
  A session whose phase is Completed or Failed is left as it is by the Session reconciler
  and by the policy reconciler. On a session whose phase is Pending or Running, the
  Session reconciler keeps the phase or moves it along an edge of the state machine
  (Pending to Running or Failed, Running to Completed or Failed), and the policy
  reconciler, marking a violation, moves it to Failed. A session whose phase is any other
  string is reset to Pending by the Session reconciler and set to Failed by the policy
  reconciler marking a violation. Admission of an update does not look at the phase.
\<close>

theorem completed_failed_sticky:
  "(getPhase s = ''Completed'' \<or> getPhase s = ''Failed'' \<longrightarrow>
      Reconcile e (Found s) = (Some s, Done) \<and> markSessionViolation now s v = (s, False))
   \<and> (getPhase s = ''Pending'' \<or> getPhase s = ''Running'' \<longrightarrow>
        (\<exists>s' r. Reconcile e (Found s) = (Some s', r)
           \<and> (getPhase s' = getPhase s
               \<or> spec_allowed_edge (getPhase s) (getPhase s')
                 \<and> IsPhaseTransitionValid (getPhase s) (getPhase s')))
        \<and> getPhase (fst (markSessionViolation now s v)) = ''Failed''
        \<and> spec_allowed_edge (getPhase s) ''Failed'')
   \<and> (getPhase s \<notin> set [''Pending'', ''Running'', ''Completed'', ''Failed''] \<longrightarrow>
        (\<exists>s' r. Reconcile e (Found s) = (Some s', r) \<and> getPhase s' = ''Pending'')
        \<and> getPhase (fst (markSessionViolation now s v)) = ''Failed'')
   \<and> Handle m get_policy \<lparr>operation = ''UPDATE'', object = Some (set_phase p new), oldObject = Some old\<rparr>
       = Handle m get_policy \<lparr>operation = ''UPDATE'', object = Some new, oldObject = Some old\<rparr>"
proof (intro conjI impI)
  assume "getPhase s = ''Completed'' \<or> getPhase s = ''Failed''"
  then show "Reconcile e (Found s) = (Some s, Done)" and "markSessionViolation now s v = (s, False)"
    by (rule Reconcile_terminal, rule markSessionViolation_terminal)
next
  assume a: "getPhase s = ''Pending'' \<or> getPhase s = ''Running''"
  then show "\<exists>s' r. Reconcile e (Found s) = (Some s', r)
           \<and> (getPhase s' = getPhase s
               \<or> spec_allowed_edge (getPhase s) (getPhase s')
                 \<and> IsPhaseTransitionValid (getPhase s) (getPhase s'))"
    by (rule Reconcile_known)
  from a show "getPhase (fst (markSessionViolation now s v)) = ''Failed''"
    by (intro markSessionViolation_Failed) auto
  from a show "spec_allowed_edge (getPhase s) ''Failed''"
    by (auto simp: spec_allowed_edge_def)
next
  assume a: "getPhase s \<notin> set [''Pending'', ''Running'', ''Completed'', ''Failed'']"
  then show "\<exists>s' r. Reconcile e (Found s) = (Some s', r) \<and> getPhase s' = ''Pending''"
    by (rule Reconcile_unknown)
  from a show "getPhase (fst (markSessionViolation now s v)) = ''Failed''"
    by (intro markSessionViolation_Failed) auto
next
  show "Handle m get_policy \<lparr>operation = ''UPDATE'', object = Some (set_phase p new), oldObject = Some old\<rparr>
       = Handle m get_policy \<lparr>operation = ''UPDATE'', object = Some new, oldObject = Some old\<rparr>"
    by (simp add: Handle_def validateUpdate_def set_phase_validateHistoryAppendOnly)
qed

lemma getPhase_session_in_phase: "p \<noteq> [] \<Longrightarrow> getPhase (session_in_phase p) = p"
  by (simp add: getPhase_def session_in_phase_def idx_def)

theorem completed_failed_sticky_witness:
  "Reconcile quiet_env (Found (session_in_phase ''Completed'')) = (Some (session_in_phase ''Completed''), Done)
   \<and> markSessionViolation ''2025-01-01T00:00:00Z'' (session_in_phase ''Failed'') ''model blocked''
       = (session_in_phase ''Failed'', False)
   \<and> map_option getPhase (fst (Reconcile quiet_env (Found (session_in_phase ''Pending'')))) = Some ''Running''
   \<and> getPhase (fst (markSessionViolation ''2025-01-01T00:00:00Z'' (session_in_phase ''Running'') ''model blocked''))
       = ''Failed''
   \<and> map_option getPhase (fst (Reconcile quiet_env (Found (session_in_phase ''TimedOut'')))) = Some ''Pending''"
proof -
  have 1: "Reconcile quiet_env (Found (session_in_phase ''Completed'')) = (Some (session_in_phase ''Completed''), Done)"
    using completed_failed_sticky[where s = "session_in_phase ''Completed''" and e = quiet_env
        and now = "''2025-01-01T00:00:00Z''" and v = "''model blocked''" and m = encode
        and get_policy = no_policy and p = "''Running''" and new = session_v1 and old = session_v1]
    by (simp add: getPhase_session_in_phase)
  have 2: "markSessionViolation ''2025-01-01T00:00:00Z'' (session_in_phase ''Failed'') ''model blocked''
       = (session_in_phase ''Failed'', False)"
    using completed_failed_sticky[where s = "session_in_phase ''Failed''" and e = quiet_env
        and now = "''2025-01-01T00:00:00Z''" and v = "''model blocked''" and m = encode
        and get_policy = no_policy and p = "''Running''" and new = session_v1 and old = session_v1]
    by (simp add: getPhase_session_in_phase)
  have 4: "getPhase (fst (markSessionViolation ''2025-01-01T00:00:00Z'' (session_in_phase ''Running'') ''model blocked''))
       = ''Failed''"
    using completed_failed_sticky[where s = "session_in_phase ''Running''" and e = quiet_env
        and now = "''2025-01-01T00:00:00Z''" and v = "''model blocked''" and m = encode
        and get_policy = no_policy and p = "''Running''" and new = session_v1 and old = session_v1]
    by (simp add: getPhase_session_in_phase)
  have 5: "map_option getPhase (fst (Reconcile quiet_env (Found (session_in_phase ''TimedOut'')))) = Some ''Pending''"
    using completed_failed_sticky[where s = "session_in_phase ''TimedOut''" and e = quiet_env
        and now = "''2025-01-01T00:00:00Z''" and v = "''model blocked''" and m = encode
        and get_policy = no_policy and p = "''Running''" and new = session_v1 and old = session_v1]
    by (auto simp: getPhase_session_in_phase)
  have 3: "map_option getPhase (fst (Reconcile quiet_env (Found (session_in_phase ''Pending'')))) = Some ''Running''"
    by (simp add: Reconcile_def getPhase_session_in_phase PhasePending_def PhaseRunning_def
        handlePending_def validatePolicy_def quiet_env_def no_policy_def createWorkload_def Let_def
        updatePhase_getPhase split_beta)
  show ?thesis using 1 2 3 4 5 by simp
qed

text \<open>
  Claim C1 as stated fails: a session whose phase is Stopped, terminal in the
  specification, is moved to Pending by the Session reconciler, which is no edge of the
  state machine.
\<close>

theorem stopped_reset_counterexample:
  "getPhase (session_in_phase ''Stopped'') = ''Stopped''
   \<and> spec_terminal ''Stopped''
   \<and> map_option getPhase (fst (Reconcile quiet_env (Found (session_in_phase ''Stopped'')))) = Some ''Pending''
   \<and> \<not> spec_allowed_edge ''Stopped'' ''Pending''"
  by (simp add: Reconcile_def getPhase_session_in_phase PhasePending_def PhaseRunning_def
      PhaseCompleted_def PhaseFailed_def updatePhase_getPhase spec_terminal_def spec_allowed_edge_def
      Let_def split_beta)

text \<open>
  Claim C7. \<^verbatim>\<open>updatePhase\<close>, through which the Session reconciler makes every phase change,
  appends exactly one entry to \<^verbatim>\<open>status.history\<close>; the entry's event is \<^verbatim>\<open>PhaseChanged\<close>
  followed directly by the phase, which is not the event \<^verbatim>\<open>PhaseChanged:<phase>\<close> that
  \<^verbatim>\<open>UpdatePhase\<close> of the status package writes.
\<close>

theorem updatePhase_event:
  "history_of (fst (updatePhase e s p msg))
     = history_of s
       @ [JMap [(''timestamp'', JString (env_now e)),
                (''event'', JString (''PhaseChanged'' @ p)),
                (''data'', JMap [(''phase'', JString p), (''message'', JString msg)])]]
   \<and> ''PhaseChanged'' @ p \<noteq> UpdatePhase_event p"
  by (simp add: history_of_def updatePhase_history UpdatePhase_event_def)

theorem updatePhase_event_witness:
  "map_option history_of (fst (Reconcile quiet_env (Found (session_in_phase ''Pending''))))
     = Some [entry ''Created'',
             JMap [(''timestamp'', JString ''2025-01-01T00:00:00Z''),
                   (''event'', JString ''PhaseChangedRunning''),
                   (''data'', JMap [(''phase'', JString ''Running''),
                                    (''message'', JString ''Workload created successfully'')])]]
   \<and> ''PhaseChangedRunning'' \<noteq> ''PhaseChanged:Running''"
proof -
  let ?s1 = "updateWorkloadInfo quiet_env (session_in_phase ''Pending'') ''s1-runner''"
  have q: "env_policy quiet_env = no_policy" "env_owner_ok quiet_env" "env_create quiet_env = Created"
    by (simp_all add: quiet_env_def)
  have n: "GetName (session_in_phase ''Pending'') = ''s1''"
    by (simp add: GetName_def session_in_phase_def idx_def)
  have r: "fst (Reconcile quiet_env (Found (session_in_phase ''Pending'')))
             = Some (fst (updatePhase quiet_env ?s1 ''Running'' ''Workload created successfully''))"
    by (simp add: Reconcile_def getPhase_session_in_phase PhasePending_def PhaseRunning_def
        handlePending_def validatePolicy_def q n no_policy_def createWorkload_def Let_def
        buildJob_GetName split_beta)
  have h: "history_of ?s1 = [entry ''Created'']"
    by (simp add: history_of_def updateWorkloadInfo_history)
       (simp add: list_at_def session_in_phase_def idx_def)
  from updatePhase_event[of quiet_env ?s1 "''Running''" "''Workload created successfully''"]
  show ?thesis unfolding r h by (simp add: quiet_env_def)
qed

section \<open>Properties of the backend\<close>

lemma store_create_Some:
  assumes "store_create admit ns u st = Some (u', st')"
  shows "u' = u" and "st' = st((ns, GetName u) := Some u)" and "st (ns, GetName u) = None"
  using assms by (auto simp: store_create_def split: if_splits)

lemma createSessionFromWebhook_GetNamespace:
  "GetNamespace (createSessionFromWebhook now sid ns source payload) = ns"
  by (simp add: createSessionFromWebhook_def GetNamespace_def idx_def Let_def)

lemma handleWebhook_created_cases:
  assumes c: "created (handleWebhook e client req source) = Some (ns, session)"
  shows "\<exists>st payload st'.
           resolveNamespace (apiKey req) = Inr ns \<and> body req = Some payload \<and> client = Some st
           \<and> store_create (wh_admit e) ns
                (createSessionFromWebhook (wh_now e) (wh_uuid e) ns source payload) st
               = Some (session, st')
           \<and> handleWebhook e client req source
               = \<lparr>http_status = 202,
                  http_answer = WebhookResponse (GetName session) ns ''accepted'' (wh_estimatedStart e),
                  created = Some (ns, session), store_after = Some st'\<rparr>"
proof (cases "apiKey req = []")
  case True
  with c show ?thesis by (simp add: handleWebhook_def reply_def Let_def split: if_splits)
next
  case key: False
  show ?thesis
  proof (cases "resolveNamespace (apiKey req)")
    case (Inl err)
    with c key show ?thesis by (simp add: handleWebhook_def reply_def Let_def split: if_splits)
  next
    case ns: (Inr namespace)
    show ?thesis
    proof (cases "body req")
      case None
      with c key ns show ?thesis by (simp add: handleWebhook_def reply_def Let_def split: if_splits)
    next
      case payload: (Some payload)
      show ?thesis
      proof (cases "validateNamespacePolicy namespace source")
        case (Some err)
        with c key ns payload show ?thesis by (simp add: handleWebhook_def reply_def Let_def split: if_splits)
      next
        case pol: None
        show ?thesis
        proof (cases client)
          case None
          with c key ns payload pol show ?thesis by (simp add: handleWebhook_def reply_def Let_def split: if_splits)
        next
          case st: (Some st)
          show ?thesis
          proof (cases "store_create (wh_admit e) namespace
                          (createSessionFromWebhook (wh_now e) (wh_uuid e) namespace source payload) st")
            case None
            with c key ns payload pol st show ?thesis by (simp add: handleWebhook_def reply_def Let_def split: if_splits)
          next
            case (Some r)
            obtain u st' where r: "r = (u, st')" by (cases r)
            from c key ns payload pol st Some r have "namespace = ns" "u = session"
              by (simp_all add: handleWebhook_def Let_def)
            with c key ns payload pol st Some r show ?thesis
              by (simp add: handleWebhook_def Let_def)
          qed
        qed
      qed
    qed
  qed
qed

lemma handleWebhook_created:
  assumes "created (handleWebhook e client req source) = Some (ns, session)"
  shows "resolveNamespace (apiKey req) = Inr ns"
    and "GetNamespace session = ns"
    and "\<exists>st. client = Some st
           \<and> store_after (handleWebhook e client req source) = Some (st((ns, GetName session) := Some session))"
    and "http_answer (handleWebhook e client req source)
           = WebhookResponse (GetName session) ns ''accepted'' (wh_estimatedStart e)"
proof -
  from handleWebhook_created_cases[OF assms] obtain st payload st' where
    h: "resolveNamespace (apiKey req) = Inr ns" "body req = Some payload" "client = Some st"
       "store_create (wh_admit e) ns
          (createSessionFromWebhook (wh_now e) (wh_uuid e) ns source payload) st = Some (session, st')"
       "handleWebhook e client req source
          = \<lparr>http_status = 202,
             http_answer = WebhookResponse (GetName session) ns ''accepted'' (wh_estimatedStart e),
             created = Some (ns, session), store_after = Some st'\<rparr>"
    by blast
  note sc = store_create_Some[OF h(4)]
  show "resolveNamespace (apiKey req) = Inr ns" by (rule h(1))
  show "GetNamespace session = ns"
    using sc(1) by (simp add: createSessionFromWebhook_GetNamespace)
  show "\<exists>st. client = Some st
           \<and> store_after (handleWebhook e client req source) = Some (st((ns, GetName session) := Some session))"
    using h(3) h(5) sc(1) sc(2) by simp
  show "http_answer (handleWebhook e client req source)
           = WebhookResponse (GetName session) ns ''accepted'' (wh_estimatedStart e)"
    using h(5) by simp
qed

text \<open>
  Claim C4. When the handler creates a Session for a request, the API key of the request is
  bound to exactly the namespace the Session is created in: the object names that
  namespace, the store gains this one object under that namespace, and the answer reports
  it. Two requests with the same API key, whatever their payloads and sources, have their
  Sessions created in the same namespace.
\<close>

theorem webhook_namespace_from_credential:
  "(created (handleWebhook e client req source) = Some (ns, session) \<longrightarrow>
      resolveNamespace (apiKey req) = Inr ns
      \<and> map_of keyToNamespace (apiKey req) = Some ns
      \<and> GetNamespace session = ns
      \<and> (\<exists>st. client = Some st
            \<and> store_after (handleWebhook e client req source)
                = Some (st((ns, GetName session) := Some session)))
      \<and> http_answer (handleWebhook e client req source)
          = WebhookResponse (GetName session) ns ''accepted'' (wh_estimatedStart e))
   \<and> (apiKey req = apiKey req'
        \<and> created (handleWebhook e client req source) = Some (ns, session)
        \<and> created (handleWebhook e' client' req' source') = Some (ns', session')
      \<longrightarrow> ns = ns')"
proof (intro conjI impI)
  assume a: "created (handleWebhook e client req source) = Some (ns, session)"
  note h = handleWebhook_created[OF a]
  show "resolveNamespace (apiKey req) = Inr ns" by (rule h(1))
  then show "map_of keyToNamespace (apiKey req) = Some ns"
    by (auto simp: resolveNamespace_def split: option.splits)
  show "GetNamespace session = ns" by (rule h(2))
  show "\<exists>st. client = Some st
            \<and> store_after (handleWebhook e client req source)
                = Some (st((ns, GetName session) := Some session))"
    using h(3) by blast
  show "http_answer (handleWebhook e client req source)
          = WebhookResponse (GetName session) ns ''accepted'' (wh_estimatedStart e)"
    by (rule h(4))
next
  assume a: "apiKey req = apiKey req'
        \<and> created (handleWebhook e client req source) = Some (ns, session)
        \<and> created (handleWebhook e' client' req' source') = Some (ns', session')"
  then have "resolveNamespace (apiKey req) = Inr ns" "resolveNamespace (apiKey req') = Inr ns'"
    using handleWebhook_created(1) by blast+
  with a show "ns = ns'" by simp
qed

theorem webhook_namespace_from_credential_witness:
  "map_option fst (created (handleWebhook example_webhook_env (Some empty_store)
                      (hinted_request ''team-beta'') ''github'')) = Some ''team-alpha''
   \<and> map_option fst (created (handleWebhook example_webhook_env (Some empty_store)
                      (hinted_request ''team-gamma'') ''slack'')) = Some ''team-alpha''"
proof -
  let ?r1 = "handleWebhook example_webhook_env (Some empty_store) (hinted_request ''team-beta'') ''github''"
  let ?r2 = "handleWebhook example_webhook_env (Some empty_store) (hinted_request ''team-gamma'') ''slack''"
  let ?s1 = "createSessionFromWebhook ''2025-01-01T00:00:00Z'' ''550e8400-e29b-41d4-a716-446655440000''
               ''team-alpha'' ''github'' (the (body (hinted_request ''team-beta'')))"
  let ?s2 = "createSessionFromWebhook ''2025-01-01T00:00:00Z'' ''550e8400-e29b-41d4-a716-446655440000''
               ''team-alpha'' ''slack'' (the (body (hinted_request ''team-gamma'')))"
  have c1: "created ?r1 = Some (''team-alpha'', ?s1)"
    by (simp add: handleWebhook_def hinted_request_def example_webhook_env_def resolveNamespace_def
        keyToNamespace_def validateNamespacePolicy_def store_create_def admit_all_def empty_store_def
        Let_def)
  have c2: "created ?r2 = Some (''team-alpha'', ?s2)"
    by (simp add: handleWebhook_def hinted_request_def example_webhook_env_def resolveNamespace_def
        keyToNamespace_def validateNamespacePolicy_def store_create_def admit_all_def empty_store_def
        Let_def)
  have k: "apiKey (hinted_request ''team-beta'') = apiKey (hinted_request ''team-gamma'')"
    by (simp add: hinted_request_def)
  from webhook_namespace_from_credential[where e = example_webhook_env and client = "Some empty_store"
      and req = "hinted_request ''team-beta''" and source = "''github''" and ns = "''team-alpha''"
      and session = ?s1 and req' = "hinted_request ''team-gamma''" and e' = example_webhook_env
      and client' = "Some empty_store" and source' = "''slack''" and ns' = "''team-alpha''"
      and session' = ?s2] c1 c2 k
  have "map_of keyToNamespace (apiKey (hinted_request ''team-beta'')) = Some ''team-alpha''"
    by simp
  then show ?thesis using c1 c2 by simp
qed



lemma CreateSession_object:
  "\<exists>u. GetName u = generateSessionID now \<and> GetNamespace u = ns
       \<and> (\<forall>admit st. CreateSession admit st now spec ns
             = (case store_create admit ns u st of
                  None \<Rightarrow> (Inl FailedToCreateSession, st)
                | Some (c, st') \<Rightarrow> (Inr c, st')))"
  unfolding CreateSession_def Let_def
  apply (rule exI)
  apply (intro conjI allI)
    prefer 3
    apply (rule refl)
   apply (simp_all add: GetName_def GetNamespace_def idx_def)
  done

lemma CreateSession_name:
  assumes "CreateSession admit st now spec ns = (Inr u, st')"
  shows "GetName u = generateSessionID now" and "st' (ns, generateSessionID now) = Some u"
proof -
  obtain v where v: "GetName v = generateSessionID now"
    "\<And>admit st. CreateSession admit st now spec ns
             = (case store_create admit ns v st of
                  None \<Rightarrow> (Inl FailedToCreateSession, st)
                | Some (c, st') \<Rightarrow> (Inr c, st'))"
    using CreateSession_object[of now ns spec] by blast
  from assms v(2)[of admit st] have "store_create admit ns v st = Some (u, st')"
    by (auto split: option.splits)
  from store_create_Some[OF this] v(1)
  show "GetName u = generateSessionID now" and "st' (ns, generateSessionID now) = Some u"
    by simp_all
qed

lemma CreateSession_taken:
  assumes "st (ns, generateSessionID now) \<noteq> None"
  shows "CreateSession admit st now spec ns = (Inl FailedToCreateSession, st)"
proof -
  obtain v where v: "GetName v = generateSessionID now"
    "\<And>admit st. CreateSession admit st now spec ns
             = (case store_create admit ns v st of
                  None \<Rightarrow> (Inl FailedToCreateSession, st)
                | Some (c, st') \<Rightarrow> (Inr c, st'))"
    using CreateSession_object[of now ns spec] by blast
  have "store_create admit ns v st = None"
    using assms v(1) by (simp add: store_create_def)
  then show ?thesis using v(2)[of admit st] by simp
qed

text \<open>
  Claim C10, amended. The session name is \<^verbatim>\<open>session-\<close> followed by the seconds of the
  clock and nothing else. When a \<^verbatim>\<open>CreateSession\<close> has stored its Session, any other
  \<^verbatim>\<open>CreateSession\<close> in the same second and for the same namespace fails with the store's
  error and leaves the store as it was.
\<close>

theorem same_second_same_name:
  "generateSessionID now = ''session-'' @ itoa now
   \<and> (CreateSession admit st now spec ns = (Inr u, st') \<longrightarrow>
        GetName u = generateSessionID now
        \<and> st' (ns, generateSessionID now) = Some u
        \<and> CreateSession admit' st' now spec' ns = (Inl FailedToCreateSession, st'))"
proof (intro conjI impI)
  show "generateSessionID now = ''session-'' @ itoa now"
    by (simp add: generateSessionID_def)
next
  assume a: "CreateSession admit st now spec ns = (Inr u, st')"
  show "GetName u = generateSessionID now"
    by (rule CreateSession_name(1)[OF a])
  show t: "st' (ns, generateSessionID now) = Some u"
    by (rule CreateSession_name(2)[OF a])
  show "CreateSession admit' st' now spec' ns = (Inl FailedToCreateSession, st')"
    using t by (intro CreateSession_taken) simp
qed

lemma example_create:
  "CreateSession admit_all empty_store 1735689600 example_spec ns
     = (Inr (the (snd (CreateSession admit_all empty_store 1735689600 example_spec ns)
                   (ns, ''session-1735689600''))),
        snd (CreateSession admit_all empty_store 1735689600 example_spec ns))"
  by (simp add: CreateSession_def store_create_def admit_all_def empty_store_def Let_def
      GetName_def idx_def generateSessionID_def itoa_def dec.simps)

theorem same_second_same_name_witness:
  "generateSessionID 1735689600 = ''session-1735689600''
   \<and> CreateSession admit_all
        (snd (CreateSession admit_all empty_store 1735689600 example_spec ''team-alpha''))
        1735689600 example_spec ''team-alpha''
      = (Inl FailedToCreateSession,
         snd (CreateSession admit_all empty_store 1735689600 example_spec ''team-alpha''))"
proof -
  have n: "''session-'' @ itoa 1735689600 = ''session-1735689600''"
    by (simp add: itoa_def dec.simps)
  let ?c = "CreateSession admit_all empty_store 1735689600 example_spec ''team-alpha''"
  from same_second_same_name[where now = 1735689600 and admit = admit_all and st = empty_store
      and spec = example_spec and ns = "''team-alpha''" and admit' = admit_all and spec' = example_spec
      and u = "the (snd ?c (''team-alpha'', ''session-1735689600''))" and st' = "snd ?c"]
    example_create[of "''team-alpha''"] n
  show ?thesis by simp
qed

text \<open>
  Claim C10 as stated fails: two \<^verbatim>\<open>CreateSession\<close> calls in the same second for two
  namespaces both succeed, and the store holds two Sessions of the same name.
\<close>

theorem other_namespace_counterexample:
  "fst (CreateSession admit_all empty_store 1735689600 example_spec ''team-alpha'')
     \<noteq> Inl FailedToCreateSession
   \<and> fst (CreateSession admit_all
            (snd (CreateSession admit_all empty_store 1735689600 example_spec ''team-alpha''))
            1735689600 example_spec ''team-beta'')
     \<noteq> Inl FailedToCreateSession
   \<and> snd (CreateSession admit_all
            (snd (CreateSession admit_all empty_store 1735689600 example_spec ''team-alpha''))
            1735689600 example_spec ''team-beta'') (''team-alpha'', ''session-1735689600'') \<noteq> None
   \<and> snd (CreateSession admit_all
            (snd (CreateSession admit_all empty_store 1735689600 example_spec ''team-alpha''))
            1735689600 example_spec ''team-beta'') (''team-beta'', ''session-1735689600'') \<noteq> None"
  by (simp add: CreateSession_def store_create_def admit_all_def empty_store_def Let_def
      GetName_def idx_def generateSessionID_def itoa_def dec.simps)

end
